theory Spec2Isabelle
  imports Main "HOL-Library.Word"
begin

unbundle bit_operations_syntax

section \<open>Strings\<close>

text \<open>
  A JavaScript string is a sequence of UTF-16 code units. The model writes it as a
  \<^typ>\<open>string\<close>, one \<^typ>\<open>char\<close> per code unit, which covers the code units below 256
  (ASCII and Latin-1). On these, \<open>toLowerCase\<close>, \<open>trim\<close> and the character classes of
  the regular expressions are the ones of ECMAScript.
\<close>

definition code :: "char \<Rightarrow> nat" where
  "code c = of_char c"

definition isDigit :: "char \<Rightarrow> bool" where
  "isDigit c = (48 \<le> code c \<and> code c \<le> 57)"

definition isLowerAlnum :: "char \<Rightarrow> bool" where
  \<comment> \<open>the class \<open>[a-z0-9]\<close>\<close>
  "isLowerAlnum c = ((97 \<le> code c \<and> code c \<le> 122) \<or> isDigit c)"

definition isWordChar :: "char \<Rightarrow> bool" where
  \<comment> \<open>the class \<open>\w\<close>, that is \<open>[A-Za-z0-9_]\<close>\<close>
  "isWordChar c = ((65 \<le> code c \<and> code c \<le> 90) \<or> isLowerAlnum c \<or> code c = 95)"

definition isSpace :: "char \<Rightarrow> bool" where
  \<comment> \<open>the class \<open>\s\<close>, which is also what \<open>trim\<close> strips: tab, line feed, vertical tab,
      form feed, carriage return, space, no-break space\<close>
  "isSpace c = (code c \<in> {9, 10, 11, 12, 13, 32, 160})"

definition lowerChar :: "char \<Rightarrow> char" where
  "lowerChar c =
     (if (65 \<le> code c \<and> code c \<le> 90) \<or> (192 \<le> code c \<and> code c \<le> 222 \<and> code c \<noteq> 215)
      then char_of (code c + 32) else c)"

definition toLowerCase :: "string \<Rightarrow> string" where
  "toLowerCase s = map lowerChar s"

definition trim :: "string \<Rightarrow> string" where
  "trim s = rev (dropWhile isSpace (rev (dropWhile isSpace s)))"

fun startsWith :: "string \<Rightarrow> string \<Rightarrow> bool" where
  "startsWith s [] = True"
| "startsWith [] (p # ps) = False"
| "startsWith (c # cs) (p # ps) = (c = p \<and> startsWith cs ps)"

fun includesStr :: "string \<Rightarrow> string \<Rightarrow> bool" where
  "includesStr [] w = (w = [])"
| "includesStr (c # cs) w = (startsWith (c # cs) w \<or> includesStr cs w)"

fun join :: "string \<Rightarrow> string list \<Rightarrow> string" where
  "join sep [] = []"
| "join sep [x] = x"
| "join sep (x # y # ys) = x @ sep @ join sep (y # ys)"

definition orElse :: "string \<Rightarrow> string \<Rightarrow> string" where
  \<comment> \<open>\<open>a || b\<close> on strings: the empty string is the only falsy one\<close>
  "orElse a b = (if a = [] then b else a)"

definition newline :: string where
  "newline = [CHR 0x0A]"

fun showNat :: "nat \<Rightarrow> string" where
  "showNat n =
     (if n < 10 then [char_of (48 + n)] else showNat (n div 10) @ [char_of (48 + n mod 10)])"

declare showNat.simps [simp del]

definition numberToString :: "int \<Rightarrow> string" where
  \<comment> \<open>\<open>String(v)\<close> of an integral Number of magnitude below \<open>10^21\<close>\<close>
  "numberToString v = (if v < 0 then ''-'' @ showNat (nat (- v)) else showNat (nat v))"

section \<open>JSON values\<close>

text \<open>
  The TypeScript types of the source are erased when it runs: what \<open>JSON.parse\<close> and
  \<open>response.json()\<close> return is any JSON value, and the casts of the source check
  nothing. The model keeps such values as they are. A number is given by its string
  conversion \<open>String(n)\<close>, which is all the program observes of it (zero is \<open>0\<close>);
  an object by its own properties, one pair per key.
\<close>

datatype json =
    JNull
  | JBool bool
  | JNumber string
  | JString string
  | JArray "json list"
  | JObject "(string \<times> json) list"

definition property :: "string \<Rightarrow> json \<Rightarrow> json option" where
  \<comment> \<open>\<open>v.k\<close> for a value that is not \<open>null\<close> and one of the keys the program reads, none
      of which a primitive, an array or a prototype has; \<open>None\<close> is \<open>undefined\<close>\<close>
  "property k v = (case v of JObject kvs \<Rightarrow> map_of kvs k | _ \<Rightarrow> None)"

fun truthy :: "json \<Rightarrow> bool" where
  "truthy JNull = False"
| "truthy (JBool b) = b"
| "truthy (JNumber t) = (t \<noteq> ''0'')"
| "truthy (JString s) = (s \<noteq> [])"
| "truthy (JArray xs) = True"
| "truthy (JObject kvs) = True"

section \<open>Data model\<close>

text \<open>
  Several types of the source share field names (\<open>id\<close>, \<open>tool\<close>, \<open>description\<close>,
  \<open>success\<close>, \<open>error\<close>), so each record's fields carry a prefix: \<open>te_\<close> for
  \<open>ToolExecution\<close>, \<open>tc_\<close> for \<open>ToolContext\<close>, \<open>t_\<close> for \<open>Tool\<close>, \<open>pi_\<close> for
  \<open>PlanItem\<close>, \<open>pp_\<close> for \<open>PlanPayload\<close>, \<open>ao_\<close> for \<open>AgentOutcome\<close>, \<open>m_\<close> for its
  \<open>meta\<close>, \<open>e_\<close> for a ranked entry, \<open>d_\<close> for a knowledge-base document.
  An optional field (\<open>error?: string\<close>) is an \<^typ>\<open>string option\<close>.

  \<open>ToolExecution\<close> records are built by the program from strings, and so are the plan
  items of the heuristic planner. The \<open>plan\<close> and the \<open>reasoning\<close> of an outcome are
  whatever the planner's reply held under these keys when the run has a credential, so
  they are JSON values (\<open>None\<close> when the key is missing).
\<close>

record ToolContext =
  tc_task :: string

record ToolExecution =
  te_id :: string
  te_tool :: string
  te_input :: string
  te_output :: string
  te_success :: bool
  te_error :: "string option"

record PlanItem =
  pi_id :: string
  pi_title :: string
  pi_description :: string
  pi_tool :: string

record PlanPayload =
  pp_reasoning :: string
  pp_plan :: "PlanItem list"

definition planItemJson :: "PlanItem \<Rightarrow> json" where
  \<comment> \<open>a plan item as the object it is at run time\<close>
  "planItemJson item =
     JObject [(''id'', JString (pi_id item)), (''title'', JString (pi_title item)),
              (''description'', JString (pi_description item)), (''tool'', JString (pi_tool item))]"

definition planJson :: "PlanItem list \<Rightarrow> json option" where
  "planJson items = Some (JArray (map planItemJson items))"

record Meta =
  m_startedAt :: string
  m_completedAt :: string
  m_durationMs :: int

record AgentOutcome =
  ao_success :: bool
  ao_plan :: "json option"
  ao_steps :: "ToolExecution list"
  ao_final :: string
  ao_reasoning :: "json option"
  ao_meta :: Meta
  ao_error :: "string option"

record Doc =
  d_title :: string
  d_content :: string

section \<open>Exceptions and the outside world\<close>

text \<open>
  What a \<open>catch\<close> clause receives: an \<open>Error\<close> instance with its message, or some other
  value. Each catch clause of the source turns it into a message the same way.
\<close>

datatype thrown = Error string | NonError

fun caughtMessage :: "thrown \<Rightarrow> string" where
  "caughtMessage (Error message) = message"
| "caughtMessage NonError = ''Unknown error''"

text \<open>
  The operations that raise a \<open>TypeError\<close> on a value of the wrong kind: reading a
  property of \<open>undefined\<close> or of \<open>null\<close> (the property is named), calling something that
  is not a function (the expression is named), iterating what is not iterable, \<open>in\<close> with
  a right operand that is not an object, and converting to a string an object that has a
  \<open>toString\<close> property of its own, which no JSON value can make callable.
\<close>

datatype fault =
    ReadOfUndefined string
  | ReadOfNull string
  | NotAFunction string
  | NotIterable string
  | InOfPrimitive string json
  | NotPrimitive

text \<open>
  \<open>response.json()\<close> either decodes the body, to any JSON value, or rejects;
  \<open>response.ok\<close> holds for the statuses 200 to 299.
\<close>

record Response =
  status :: nat
  json :: "thrown + json"

definition ok :: "Response \<Rightarrow> bool" where
  "ok response = (200 \<le> status response \<and> status response \<le> 299)"

text \<open>
  The effects of a run are logged as events, most recent first. Whatever the program
  obtains from outside is a field of the environment, and may depend on everything that
  happened before:
  \<^item> \<open>OPENAI_API_KEY\<close>: \<open>process.env.OPENAI_API_KEY\<close>, a string or undefined;
  \<^item> \<open>uuid\<close>: what \<open>randomUUID()\<close> returns;
  \<^item> \<open>clock\<close>: what \<open>new Date()\<close> reads, in milliseconds; \<open>isoString\<close> is
    \<open>toISOString\<close>;
  \<^item> \<open>network\<close>: what \<open>fetch\<close> of a URL gives, a rejection or a response;
  \<^item> \<open>engine\<close>: what the JavaScript engine makes of a function body that lies outside
    the fragment modelled below, an exception or the returned value as a string;
  \<^item> \<open>wording\<close>: the message the engine gives a \<open>TypeError\<close>;
  \<^item> \<open>planner\<close>: the outcome of the planning call, an exception (of the request or of
    \<open>JSON.parse\<close>) or the parsed reply, any JSON value;
  \<^item> \<open>summarizer\<close>: the outcome of the summarizing call, an exception or the
    \<open>output_text\<close> of the response, a string by the client library's contract.
  The constructor \<open>new OpenAI({ apiKey })\<close> only stores the key and has no part in
  the model.
\<close>

datatype event =
    RandomUUID
  | NewDate
  | Fetched string
  | Evaluated string
  | PlanRequested string
  | FinalRequested string

type_synonym world = "event list"

record env =
  OPENAI_API_KEY :: "string option"
  uuid :: "world \<Rightarrow> string"
  clock :: "world \<Rightarrow> int"
  isoString :: "int \<Rightarrow> string"
  network :: "world \<Rightarrow> string \<Rightarrow> thrown + Response"
  engine :: "world \<Rightarrow> string \<Rightarrow> thrown + string"
  wording :: "fault \<Rightarrow> string"
  planner :: "world \<Rightarrow> string \<Rightarrow> thrown + json"
  summarizer :: "world \<Rightarrow> string \<Rightarrow> json option \<Rightarrow> ToolExecution list \<Rightarrow> thrown + string"

definition typeError :: "env \<Rightarrow> fault \<Rightarrow> thrown" where
  \<comment> \<open>a \<open>TypeError\<close> is an \<open>Error\<close>\<close>
  "typeError E f = Error (wording E f)"

definition randomUUID :: "env \<Rightarrow> world \<Rightarrow> string \<times> world" where
  "randomUUID E w = (uuid E w, RandomUUID # w)"

definition newDate :: "env \<Rightarrow> world \<Rightarrow> int \<times> world" where
  \<comment> \<open>\<open>new Date()\<close>, as milliseconds since the epoch (\<open>getTime()\<close>)\<close>
  "newDate E w = (clock E w, NewDate # w)"

section \<open>The calculator tool\<close>

definition whitelisted :: "char \<Rightarrow> bool" where
  \<comment> \<open>the class \<open>[0-9+\-*/().%\s^]\<close>\<close>
  "whitelisted c = (isDigit c \<or> c \<in> set ''+-*/().%^'' \<or> isSpace c)"

definition isSafeMathExpression :: "string \<Rightarrow> bool" where
  \<comment> \<open>\<open>/^[0-9+\-*/().%\s^]*$/.test(expression)\<close>\<close>
  "isSafeMathExpression expression = list_all whitelisted expression"

subsection \<open>Evaluation of the expression text\<close>

text \<open>
  The tool hands the text \<open>"use strict"; return (<input>);\<close> to the \<open>Function\<close>
  constructor and calls the result. That is the JavaScript engine, not code of the
  repository. The model gives the engine's answer itself on a fragment of the language and
  leaves every other text to the \<open>engine\<close> of the environment.

  The fragment: decimal integer literals without a leading zero, the binary operators
  \<open>+\<close>, \<open>-\<close>, \<open>*\<close> and \<open>^\<close>, unary \<open>+\<close> and \<open>-\<close>, parentheses and white space,
  where every literal and every intermediate result of \<open>+\<close>, \<open>-\<close> and \<open>*\<close> is a safe
  integer (magnitude at most \<open>2^53 - 1\<close>), so that the engine's double arithmetic is
  exact. Two adjacent \<open>+\<close>, \<open>-\<close> or \<open>*\<close> characters are the tokens \<open>++\<close>, \<open>--\<close> and
  \<open>**\<close>, which are outside the fragment, as are \<open>/\<close>, \<open>%\<close> and \<open>.\<close>.

  ECMAScript precedence, from loosest to tightest: \<open>^\<close> (bitwise XOR), then \<open>+ -\<close>,
  then \<open>*\<close>, then the unary operators; binary operators associate to the left. The
  operands of \<open>^\<close> are converted by \<open>ToInt32\<close> and the result is a signed 32-bit integer.
\<close>

datatype token = NUM int | PLUS | MINUS | STAR | CARET | LPAREN | RPAREN

definition digitValue :: "char \<Rightarrow> int" where
  "digitValue c = int (code c) - 48"

definition flush :: "int option \<Rightarrow> token list" where
  "flush pending = (case pending of None \<Rightarrow> [] | Some n \<Rightarrow> [NUM n])"

definition emit :: "int option \<Rightarrow> token \<Rightarrow> token list option \<Rightarrow> token list option" where
  "emit pending t rest = map_option (\<lambda>ts. flush pending @ t # ts) rest"

fun scan :: "int option \<Rightarrow> string \<Rightarrow> token list option" where
  "scan pending [] = Some (flush pending)"
| "scan pending (c # cs) =
     (if isDigit c then
        (case pending of
           None \<Rightarrow> scan (Some (digitValue c)) cs
         | Some n \<Rightarrow> if n = 0 then None else scan (Some (10 * n + digitValue c)) cs)
      else if isSpace c then map_option (\<lambda>ts. flush pending @ ts) (scan None cs)
      else if c = CHR ''+'' then
        (if startsWith cs ''+'' then None else emit pending PLUS (scan None cs))
      else if c = CHR ''-'' then
        (if startsWith cs ''-'' then None else emit pending MINUS (scan None cs))
      else if c = CHR ''*'' then
        (if startsWith cs ''*'' then None else emit pending STAR (scan None cs))
      else if c = CHR ''^'' then emit pending CARET (scan None cs)
      else if c = CHR ''('' then emit pending LPAREN (scan None cs)
      else if c = CHR '')'' then emit pending RPAREN (scan None cs)
      else None)"

datatype oper = BitXor | Add | Sub | Mul | Neg | Pos | Paren

fun prec :: "oper \<Rightarrow> nat" where
  "prec Paren = 0"
| "prec BitXor = 1"
| "prec Add = 2"
| "prec Sub = 2"
| "prec Mul = 3"
| "prec Neg = 4"
| "prec Pos = 4"

definition maxSafe :: int where
  "maxSafe = 2 ^ 53 - 1"

definition safe :: "int \<Rightarrow> int option" where
  "safe v = (if - maxSafe \<le> v \<and> v \<le> maxSafe then Some v else None)"

definition bitXor :: "int \<Rightarrow> int \<Rightarrow> int" where
  \<comment> \<open>\<open>a ^ b\<close>: \<open>ToInt32\<close> of both operands, exclusive or, read as a signed 32-bit integer\<close>
  "bitXor a b = sint ((word_of_int a :: 32 word) XOR word_of_int b)"

fun applyOp :: "oper \<Rightarrow> int list \<Rightarrow> int list option" where
  "applyOp Neg (a # vs) = Some (- a # vs)"
| "applyOp Pos (a # vs) = Some (a # vs)"
| "applyOp Add (b # a # vs) = map_option (\<lambda>v. v # vs) (safe (a + b))"
| "applyOp Sub (b # a # vs) = map_option (\<lambda>v. v # vs) (safe (a - b))"
| "applyOp Mul (b # a # vs) = map_option (\<lambda>v. v # vs) (safe (a * b))"
| "applyOp BitXor (b # a # vs) = Some (bitXor a b # vs)"
| "applyOp _ _ = None"

text \<open>
  The evaluator keeps a stack of values and a stack of pending operators. \<open>reduce p\<close>
  applies the pending operators that bind at least as tightly as \<open>p\<close>, down to the
  innermost open parenthesis.
\<close>

fun reduce :: "nat \<Rightarrow> int list \<Rightarrow> oper list \<Rightarrow> (int list \<times> oper list) option" where
  "reduce p vs [] = Some (vs, [])"
| "reduce p vs (f # fs) =
     (if f \<noteq> Paren \<and> p \<le> prec f
      then (case applyOp f vs of None \<Rightarrow> None | Some vs' \<Rightarrow> reduce p vs' fs)
      else Some (vs, f # fs))"

definition binaryOf :: "token \<Rightarrow> oper option" where
  "binaryOf t = (case t of PLUS \<Rightarrow> Some Add | MINUS \<Rightarrow> Some Sub | STAR \<Rightarrow> Some Mul
                 | CARET \<Rightarrow> Some BitXor | _ \<Rightarrow> None)"

fun run :: "bool \<Rightarrow> int list \<Rightarrow> oper list \<Rightarrow> token list \<Rightarrow> int option" where
  "run operand vs fs [] =
     (if operand then None
      else (case reduce 1 vs fs of Some ([v], []) \<Rightarrow> Some v | _ \<Rightarrow> None))"
| "run operand vs fs (t # ts) =
     (if operand then
        (case t of
           NUM n \<Rightarrow> if n \<le> maxSafe then run False (n # vs) fs ts else None
         | MINUS \<Rightarrow> run True vs (Neg # fs) ts
         | PLUS \<Rightarrow> run True vs (Pos # fs) ts
         | LPAREN \<Rightarrow> run True vs (Paren # fs) ts
         | _ \<Rightarrow> None)
      else if t = RPAREN then
        (case reduce 1 vs fs of
           Some (vs', Paren # fs') \<Rightarrow> run False vs' fs' ts
         | _ \<Rightarrow> None)
      else
        (case binaryOf t of
           None \<Rightarrow> None
         | Some f \<Rightarrow>
             (case reduce (prec f) vs fs of
                None \<Rightarrow> None
              | Some (vs', fs') \<Rightarrow> run True vs' (f # fs') ts)))"

definition evaluateFragment :: "string \<Rightarrow> int option" where
  \<comment> \<open>the value of \<open>return (<input>);\<close> when the text is in the fragment\<close>
  "evaluateFragment input =
     (case scan None input of
        None \<Rightarrow> None
      | Some ts \<Rightarrow> run True [] [] (LPAREN # ts @ [RPAREN]))"

definition functionBody :: "string \<Rightarrow> string" where
  \<comment> \<open>the template \<open>"use strict"; return (${input});\<close>\<close>
  "functionBody input = [CHR 0x22] @ ''use strict'' @ [CHR 0x22] @ ''; return ('' @ input @ '');''"

definition callFunction :: "env \<Rightarrow> string \<Rightarrow> world \<Rightarrow> (thrown + string) \<times> world" where
  \<comment> \<open>\<open>Function(body)()\<close>: the exception thrown, or the value returned, as the string the
      template literal makes of it\<close>
  "callFunction E input w =
     ((case evaluateFragment input of
         Some v \<Rightarrow> Inr (numberToString v)
       | None \<Rightarrow> engine E w (functionBody input)),
      Evaluated (functionBody input) # w)"

definition calculatorTool :: "env \<Rightarrow> string \<Rightarrow> world \<Rightarrow> ToolExecution \<times> world" where
  "calculatorTool E input w =
     (if trim input = [] then
        (let (i, w1) = randomUUID E w in
         (\<lparr>te_id = i, te_tool = ''calculator'', te_input = input,
           te_output = ''No expression provided.'', te_success = False,
           te_error = Some ''Expression required for calculator tool.''\<rparr>, w1))
      else if \<not> isSafeMathExpression input then
        (let (i, w1) = randomUUID E w in
         (\<lparr>te_id = i, te_tool = ''calculator'', te_input = input,
           te_output = [], te_success = False,
           te_error = Some ''Expression contains unsupported characters.''\<rparr>, w1))
      else
        (case callFunction E input w of
           (Inr result, w1) \<Rightarrow>
             (let (i, w2) = randomUUID E w1 in
              (\<lparr>te_id = i, te_tool = ''calculator'', te_input = input,
                te_output = ''Result: '' @ result, te_success = True,
                te_error = None\<rparr>, w2))
         | (Inl error, w1) \<Rightarrow>
             (let (i, w2) = randomUUID E w1 in
              (\<lparr>te_id = i, te_tool = ''calculator'', te_input = input,
                te_output = [], te_success = False,
                te_error = Some (caughtMessage error)\<rparr>, w2))))"

section \<open>The knowledge-base tool\<close>

definition KNOWLEDGE_BASE :: "Doc list" where
  "KNOWLEDGE_BASE =
     [\<lparr>d_title = ''Agentic AI definition'',
       d_content = ''Agentic AI systems combine reasoning, planning, and tool usage to autonomously achieve goals across multiple steps.''\<rparr>,
      \<lparr>d_title = ''Product launch checklist'',
       d_content = ''A successful launch involves defining target personas, crafting messaging, creating assets, scheduling announcements, and preparing success metrics.''\<rparr>,
      \<lparr>d_title = ''Data storytelling'',
       d_content = ''Transform raw analysis into narratives by highlighting the question, methodology, insights, and actionable recommendations.''\<rparr>]"

text \<open>
  \<open>q.split(/[^a-z0-9]+/)\<close>: the pieces between the maximal runs of separator characters,
  with an empty piece where the string starts or ends with a separator, and the one
  piece \<open>""\<close> for the empty string. \<open>inRun\<close> tells that the previous character was a
  separator.
\<close>

fun splitRuns :: "(char \<Rightarrow> bool) \<Rightarrow> bool \<Rightarrow> string \<Rightarrow> string \<Rightarrow> string list" where
  "splitRuns sep inRun piece [] = [piece]"
| "splitRuns sep inRun piece (c # cs) =
     (if sep c then
        (if inRun then splitRuns sep True [] cs else piece # splitRuns sep True [] cs)
      else splitRuns sep False (piece @ [c]) cs)"

definition split :: "string \<Rightarrow> string list" where
  "split q = splitRuns (\<lambda>c. \<not> isLowerAlnum c) False [] q"

definition scoreKnowledgeBase :: "string \<Rightarrow> Doc \<Rightarrow> nat" where
  "scoreKnowledgeBase query doc =
     (let q = toLowerCase query;
          text = toLowerCase (d_title doc @ '' '' @ d_content doc);
          keywords = filter (\<lambda>word. word \<noteq> []) (split q);
          matches = foldl (\<lambda>total word. total + (if includesStr text word then 1 else 0)) 0 keywords
      in matches)"

record Entry =
  e_doc :: Doc
  e_score :: nat

text \<open>
  \<open>Array.prototype.sort\<close> with a comparator is a stable sort: \<open>x\<close> goes before \<open>y\<close>
  when \<open>cmp x y < 0\<close>, and elements that compare equal keep their order.
\<close>

fun insertBy :: "('a \<Rightarrow> 'a \<Rightarrow> int) \<Rightarrow> 'a \<Rightarrow> 'a list \<Rightarrow> 'a list" where
  "insertBy cmp x [] = [x]"
| "insertBy cmp x (y # ys) = (if cmp x y \<le> 0 then x # y # ys else y # insertBy cmp x ys)"

definition sortBy :: "('a \<Rightarrow> 'a \<Rightarrow> int) \<Rightarrow> 'a list \<Rightarrow> 'a list" where
  "sortBy cmp xs = foldr (insertBy cmp) xs []"

definition bullet :: string where
  \<comment> \<open>the bullet U+2022, which has no code unit below 256: written as the three bytes of
      its UTF-8 encoding; no function of the program inspects it\<close>
  "bullet = [CHR 0xE2, CHR 0x80, CHR 0xA2]"

definition ranked :: "string \<Rightarrow> Entry list" where
  \<comment> \<open>the constant \<open>ranked\<close> of \<open>knowledgeBaseTool\<close>: map, filter, sort, slice\<close>
  "ranked query =
     take 2
       (sortBy (\<lambda>a b. int (e_score b) - int (e_score a))
          (filter (\<lambda>entry. e_score entry > 0)
             (map (\<lambda>d. \<lparr>e_doc = d, e_score = scoreKnowledgeBase query d\<rparr>) KNOWLEDGE_BASE)))"

definition render :: "Entry \<Rightarrow> string" where
  \<comment> \<open>the template of one entry of the output\<close>
  "render entry = bullet @ '' '' @ d_title (e_doc entry) @ '': '' @ d_content (e_doc entry)"

definition knowledgeBaseTool :: "env \<Rightarrow> string \<Rightarrow> ToolContext \<Rightarrow> world \<Rightarrow> ToolExecution \<times> world" where
  "knowledgeBaseTool E input context w =
     (let rs = ranked (orElse input (tc_task context));
          output = (if length rs > 0 then join newline (map render rs)
                    else ''No relevant knowledge snippets found.'');
          (i, w1) = randomUUID E w
      in (\<lparr>te_id = i, te_tool = ''knowledgeBase'', te_input = input, te_output = output,
           te_success = True, te_error = None\<rparr>, w1))"

section \<open>The web search tool\<close>

definition hexDigit :: "nat \<Rightarrow> char" where
  "hexDigit n = (if n < 10 then char_of (48 + n) else char_of (55 + n))"

definition percent :: "nat \<Rightarrow> string" where
  "percent b = [CHR ''%'', hexDigit (b div 16), hexDigit (b mod 16)]"

definition unreserved :: "char \<Rightarrow> bool" where
  "unreserved c = (isWordChar c \<or> c \<in> set ''-.!~*()'' \<or> c = CHR 0x27)"

definition encodeURIComponent :: "string \<Rightarrow> string" where
  \<comment> \<open>every other code unit is escaped as the bytes of its UTF-8 encoding\<close>
  "encodeURIComponent s =
     concat (map (\<lambda>c. if unreserved c then [c]
                       else if code c < 128 then percent (code c)
                       else percent (192 + code c div 64) @ percent (128 + code c mod 64)) s)"

definition fetch :: "env \<Rightarrow> string \<Rightarrow> world \<Rightarrow> (thrown + Response) \<times> world" where
  "fetch E url w = (network E w url, Fetched url # w)"

text \<open>
  The decoded body is read as it is. \<open>forEach\<close> stops at the first exception; the
  snippets pushed before it are lost with the array, since the catch clause builds its
  own record.
\<close>

definition pushed :: "json option \<Rightarrow> json list" where
  \<comment> \<open>\<open>v && snippets.push(v)\<close>: what a value adds to the array\<close>
  "pushed v = (case v of None \<Rightarrow> [] | Some x \<Rightarrow> if truthy x then [x] else [])"

fun forEach :: "('a \<Rightarrow> thrown + 'b list) \<Rightarrow> 'a list \<Rightarrow> thrown + 'b list" where
  "forEach f [] = Inr []"
| "forEach f (x # xs) =
     (case f x of
        Inl error \<Rightarrow> Inl error
      | Inr ys \<Rightarrow> (case forEach f xs of Inl error \<Rightarrow> Inl error | Inr zs \<Rightarrow> Inr (ys @ zs)))"

definition subTopicSnippets :: "env \<Rightarrow> json \<Rightarrow> thrown + json list" where
  \<comment> \<open>\<open>(t) => t.Text && snippets.push(t.Text)\<close>\<close>
  "subTopicSnippets E t =
     (if t = JNull then Inl (typeError E (ReadOfNull ''Text'')) else Inr (pushed (property ''Text'' t)))"

definition isObject :: "json \<Rightarrow> bool" where
  \<comment> \<open>objects and arrays: what \<open>in\<close> accepts on its right\<close>
  "isObject v = (case v of JObject kvs \<Rightarrow> True | JArray xs \<Rightarrow> True | _ \<Rightarrow> False)"

definition topicSnippets :: "env \<Rightarrow> json \<Rightarrow> thrown + json list" where
  \<comment> \<open>the body of the \<open>forEach\<close> over the related topics\<close>
  "topicSnippets E topic =
     (if \<not> isObject topic then Inl (typeError E (InOfPrimitive ''Text'' topic))
      else
        (case property ''Topics'' topic of
           None \<Rightarrow> Inr (pushed (property ''Text'' topic))
         | Some v \<Rightarrow>
             if \<not> truthy v then Inr (pushed (property ''Text'' topic))
             else (case v of
                     JArray ts \<Rightarrow>
                       (case forEach (subTopicSnippets E) ts of
                          Inl error \<Rightarrow> Inl error
                        | Inr rest \<Rightarrow> Inr (pushed (property ''Text'' topic) @ rest))
                   | _ \<Rightarrow> Inl (typeError E (NotAFunction ''topic.Topics.forEach'')))))"

definition collectSnippets :: "env \<Rightarrow> json \<Rightarrow> thrown + json list" where
  \<comment> \<open>the array \<open>snippets\<close> after the abstract and the related topics were pushed\<close>
  "collectSnippets E data =
     (if data = JNull then Inl (typeError E (ReadOfNull ''AbstractText''))
      else
        (case property ''RelatedTopics'' data of
           None \<Rightarrow> Inr (pushed (property ''AbstractText'' data))
         | Some JNull \<Rightarrow> Inr (pushed (property ''AbstractText'' data))
         | Some (JArray topics) \<Rightarrow>
             (case forEach (topicSnippets E) topics of
                Inl error \<Rightarrow> Inl error
              | Inr rest \<Rightarrow> Inr (pushed (property ''AbstractText'' data) @ rest))
         | Some _ \<Rightarrow> Inl (typeError E (NotAFunction ''data.RelatedTopics?.forEach''))))"

text \<open>
  \<open>Array.prototype.join\<close> converts each element to a string, \<open>null\<close> to the empty one.
  A number is its conversion; an array is its elements joined by commas; an object is
  \<open>[object Object]\<close>, unless it has a \<open>toString\<close> property of its own, which is not
  callable, and then the conversion throws.
\<close>

fun sequence :: "(thrown + 'a) list \<Rightarrow> thrown + 'a list" where
  "sequence [] = Inr []"
| "sequence (x # xs) =
     (case x of
        Inl error \<Rightarrow> Inl error
      | Inr y \<Rightarrow> (case sequence xs of Inl error \<Rightarrow> Inl error | Inr ys \<Rightarrow> Inr (y # ys)))"

fun toText :: "env \<Rightarrow> json \<Rightarrow> thrown + string" where
  "toText E JNull = Inr ''null''"
| "toText E (JBool b) = Inr (if b then ''true'' else ''false'')"
| "toText E (JNumber t) = Inr t"
| "toText E (JString s) = Inr s"
| "toText E (JArray xs) =
     (case sequence (map (\<lambda>x. if x = JNull then Inr [] else toText E x) xs) of
        Inl error \<Rightarrow> Inl error
      | Inr texts \<Rightarrow> Inr (join '','' texts))"
| "toText E (JObject kvs) =
     (if map_of kvs ''toString'' \<noteq> None then Inl (typeError E NotPrimitive)
      else Inr ''[object Object]'')"

definition joinValues :: "env \<Rightarrow> string \<Rightarrow> json list \<Rightarrow> thrown + string" where
  \<comment> \<open>\<open>values.join(sep)\<close>\<close>
  "joinValues E sep values =
     (case sequence (map (\<lambda>x. if x = JNull then Inr [] else toText E x) values) of
        Inl error \<Rightarrow> Inl error
      | Inr texts \<Rightarrow> Inr (join sep texts))"

definition searchFailed :: "env \<Rightarrow> string \<Rightarrow> thrown \<Rightarrow> world \<Rightarrow> ToolExecution \<times> world" where
  \<comment> \<open>the catch clause of \<open>searchTool\<close>\<close>
  "searchFailed E input error w =
     (let (i, w1) = randomUUID E w in
      (\<lparr>te_id = i, te_tool = ''webSearch'', te_input = input, te_output = ''Search failed.'',
        te_success = False, te_error = Some (caughtMessage error)\<rparr>, w1))"

definition searchUrl :: "string \<Rightarrow> string" where
  "searchUrl input =
     ''https://api.duckduckgo.com/?q='' @ encodeURIComponent input
       @ ''&format=json&no_html=1&skip_disambig=1''"

definition searchTool :: "env \<Rightarrow> string \<Rightarrow> world \<Rightarrow> ToolExecution \<times> world" where
  "searchTool E input w =
     (if trim input = [] then
        (let (i, w1) = randomUUID E w in
         (\<lparr>te_id = i, te_tool = ''webSearch'', te_input = input,
           te_output = ''Search input missing.'', te_success = False,
           te_error = Some ''The search tool requires a query string.''\<rparr>, w1))
      else
        (let url = searchUrl input
         in case fetch E url w of
              (Inl error, w1) \<Rightarrow> searchFailed E input error w1
            | (Inr response, w1) \<Rightarrow>
                if \<not> ok response
                then searchFailed E input (Error (''HTTP '' @ showNat (status response))) w1
                else (case json response of
                        Inl error \<Rightarrow> searchFailed E input error w1
                      | Inr data \<Rightarrow>
                          (case collectSnippets E data of
                             Inl error \<Rightarrow> searchFailed E input error w1
                           | Inr snippets \<Rightarrow>
                               (case joinValues E newline (take 4 snippets) of
                                  Inl error \<Rightarrow> searchFailed E input error w1
                                | Inr joined \<Rightarrow>
                                    (let output = orElse joined ''No search snippets returned.'';
                                         (i, w2) = randomUUID E w1
                                     in (\<lparr>te_id = i, te_tool = ''webSearch'', te_input = input,
                                          te_output = output, te_success = True,
                                          te_error = None\<rparr>, w2)))))))"

subsection \<open>The shape the source declares for the body\<close>

text \<open>
  The type the source casts the body to, \<open>{ AbstractText?: string; RelatedTopics?:
  Array<{ Text?: string } | { Name?: string; Topics?: Array<{ Text?: string }> }> }\<close>,
  with the JSON value of each of its members. A value of an object type may have
  members that the type does not name, of any value: they are the \<open>others\<close> of each
  record. Then, following the words of the specification, the snippets of such a body:
  the abstract text, then the texts of the related topics, flattened, where only texts
  that are there and not empty count.
\<close>

record SubTopic =
  sub_Text :: "string option"
  sub_others :: "(string \<times> json) list"

record Topic =
  Text :: "string option"
  Name :: "string option"
  Topics :: "SubTopic list option"
  topic_others :: "(string \<times> json) list"

record SearchData =
  AbstractText :: "string option"
  RelatedTopics :: "Topic list option"
  data_others :: "(string \<times> json) list"

definition optional :: "string \<Rightarrow> 'a option \<Rightarrow> ('a \<Rightarrow> json) \<Rightarrow> (string \<times> json) list" where
  \<comment> \<open>an optional member of an object\<close>
  "optional k v f = (case v of None \<Rightarrow> [] | Some x \<Rightarrow> [(k, f x)])"

definition undeclared :: "string list \<Rightarrow> (string \<times> json) list \<Rightarrow> (string \<times> json) list" where
  \<comment> \<open>the members under other keys than the declared ones\<close>
  "undeclared names kvs = filter (\<lambda>(k, v). k \<notin> set names) kvs"

definition subTopicJson :: "SubTopic \<Rightarrow> json" where
  "subTopicJson s =
     JObject (optional ''Text'' (sub_Text s) JString @ undeclared [''Text''] (sub_others s))"

definition topicJson :: "Topic \<Rightarrow> json" where
  "topicJson t =
     JObject (optional ''Text'' (Text t) JString @ optional ''Name'' (Name t) JString
              @ optional ''Topics'' (Topics t) (\<lambda>ss. JArray (map subTopicJson ss))
              @ undeclared [''Text'', ''Name'', ''Topics''] (topic_others t))"

definition searchDataJson :: "SearchData \<Rightarrow> json" where
  "searchDataJson d =
     JObject (optional ''AbstractText'' (AbstractText d) JString
              @ optional ''RelatedTopics'' (RelatedTopics d) (\<lambda>ts. JArray (map topicJson ts))
              @ undeclared [''AbstractText'', ''RelatedTopics''] (data_others d))"



section \<open>The tool registry\<close>

text \<open>
  A step's description reaches a tool unchecked. Each tool function begins with a method
  call on its argument (\<open>input.trim()\<close> in the search and calculator tools,
  \<open>query.toLowerCase()\<close> in the knowledge-base tool's scoring), before any effect: given
  a string it proceeds as modelled above, given anything else it throws a \<open>TypeError\<close>.
  An \<open>async\<close> function that throws returns a rejected promise, which \<open>await\<close> throws
  again, so an entry of the registry yields an exception or a record.
\<close>

definition onString ::
  "env \<Rightarrow> string \<Rightarrow> string \<Rightarrow> json option \<Rightarrow> (string \<Rightarrow> world \<Rightarrow> ToolExecution \<times> world)
     \<Rightarrow> world \<Rightarrow> (thrown + ToolExecution) \<times> world" where
  \<comment> \<open>\<open>f(v)\<close> where \<open>f\<close> first calls \<open>method\<close> on its parameter \<open>name\<close>\<close>
  "onString E name method v f w =
     (case v of
        None \<Rightarrow> (Inl (typeError E (ReadOfUndefined method)), w)
      | Some JNull \<Rightarrow> (Inl (typeError E (ReadOfNull method)), w)
      | Some (JString s) \<Rightarrow> (let (r, w1) = f s w in (Inr r, w1))
      | Some _ \<Rightarrow> (Inl (typeError E (NotAFunction (name @ ''.'' @ method))), w))"

definition orTask :: "json option \<Rightarrow> ToolContext \<Rightarrow> json option" where
  \<comment> \<open>\<open>input || context.task\<close>\<close>
  "orTask input context =
     (case input of
        None \<Rightarrow> Some (JString (tc_task context))
      | Some v \<Rightarrow> if truthy v then Some v else Some (JString (tc_task context)))"

record Tool =
  t_name :: string
  t_description :: string
  t_execute :: "env \<Rightarrow> json option \<Rightarrow> ToolContext \<Rightarrow> world \<Rightarrow> (thrown + ToolExecution) \<times> world"

definition TOOLKIT :: "Tool list" where
  "TOOLKIT =
     [\<lparr>t_name = ''webSearch'',
       t_description = ''Live web search using DuckDuckGo instant answer API.'',
       t_execute = (\<lambda>E input context.
          onString E ''input'' ''trim'' (orTask input context) (searchTool E))\<rparr>,
      \<lparr>t_name = ''calculator'',
       t_description = ''Solve mathematical expressions including +, -, *, /, %, and ^.'',
       t_execute = (\<lambda>E input context.
          onString E ''input'' ''trim'' input (calculatorTool E))\<rparr>,
      \<lparr>t_name = ''knowledgeBase'',
       t_description = ''Query snippets from a curated strategy and AI knowledge base.'',
       t_execute = (\<lambda>E input context.
          onString E ''query'' ''toLowerCase'' (orTask input context)
            (\<lambda>s. knowledgeBaseTool E s context))\<rparr>]"

definition getToolByName :: "string \<Rightarrow> Tool option" where
  "getToolByName name = find (\<lambda>tool. toLowerCase (t_name tool) = toLowerCase name) TOOLKIT"

section \<open>The agent\<close>

definition FALLBACK_PLAN_LIMIT :: nat where
  "FALLBACK_PLAN_LIMIT = 3"

fun analyWord :: "string \<Rightarrow> bool" where
  \<comment> \<open>\<open>analy\w+\<close> matches somewhere\<close>
  "analyWord [] = False"
| "analyWord (c # cs) =
     ((startsWith (c # cs) ''analy'' \<and> (case drop 5 (c # cs) of [] \<Rightarrow> False | d # _ \<Rightarrow> isWordChar d))
      \<or> analyWord cs)"

definition analysisPattern :: "string \<Rightarrow> bool" where
  \<comment> \<open>\<open>/(analy\w+|calculate|percent|growth|increase|decrease|budget|roi)/.test(s)\<close>\<close>
  "analysisPattern s =
     (analyWord s \<or> includesStr s ''calculate'' \<or> includesStr s ''percent''
      \<or> includesStr s ''growth'' \<or> includesStr s ''increase'' \<or> includesStr s ''decrease''
      \<or> includesStr s ''budget'' \<or> includesStr s ''roi'')"

definition researchPattern :: "string \<Rightarrow> bool" where
  \<comment> \<open>\<open>/(research|find|latest|current|news|market)/.test(s)\<close>\<close>
  "researchPattern s =
     (includesStr s ''research'' \<or> includesStr s ''find'' \<or> includesStr s ''latest''
      \<or> includesStr s ''current'' \<or> includesStr s ''news'' \<or> includesStr s ''market'')"

text \<open>The three plan items that \<open>buildFallbackPlan\<close> pushes, for a given identifier.\<close>

definition calculatorStep :: "string \<Rightarrow> PlanItem" where
  "calculatorStep i =
     \<lparr>pi_id = i, pi_title = ''Quantify key numbers'',
      pi_description = ''Use the calculator to work through the core numeric components of the request.'',
      pi_tool = ''calculator''\<rparr>"

definition webSearchStep :: "string \<Rightarrow> PlanItem" where
  "webSearchStep i =
     \<lparr>pi_id = i, pi_title = ''Collect live context'',
      pi_description = ''Pull quick snippets from the web to augment knowledge with recent information.'',
      pi_tool = ''webSearch''\<rparr>"

definition knowledgeBaseStep :: "string \<Rightarrow> PlanItem" where
  "knowledgeBaseStep i =
     \<lparr>pi_id = i, pi_title = ''Reference built-in playbooks'',
      pi_description = ''Consult the knowledge base for strategic or evergreen guidance.'',
      pi_tool = ''knowledgeBase''\<rparr>"

definition buildFallbackPlan :: "env \<Rightarrow> string \<Rightarrow> world \<Rightarrow> PlanPayload \<times> world" where
  "buildFallbackPlan E task w =
     (let lowerTask = toLowerCase task;
          (plan1, w1) = (if analysisPattern lowerTask
                         then (let (i, w') = randomUUID E w in ([calculatorStep i], w'))
                         else ([], w));
          (plan2, w2) = (if researchPattern lowerTask
                         then (let (i, w') = randomUUID E w1 in (plan1 @ [webSearchStep i], w'))
                         else (plan1, w1));
          (i, w3) = randomUUID E w2;
          plan3 = plan2 @ [knowledgeBaseStep i]
      in (\<lparr>pp_reasoning = ''Generated plan via heuristic fallback because the OpenAI API key is not configured.'',
           pp_plan = take FALLBACK_PLAN_LIMIT plan3\<rparr>, w3))"

definition unregistered :: "env \<Rightarrow> string \<Rightarrow> world \<Rightarrow> ToolExecution \<times> world" where
  \<comment> \<open>the record \<open>executePlan\<close> makes for a step whose tool, of the given name, is not
      found\<close>
  "unregistered E name w =
     (let (i, w1) = randomUUID E w in
      (\<lparr>te_id = i, te_tool = name, te_input = [], te_output = ''Tool not available.'',
        te_success = False,
        te_error = Some (''Tool '' @ name @ '' is not registered.'')\<rparr>, w1))"

text \<open>
  The plan reaches \<open>executePlan\<close> unchecked as well. \<open>step.tool\<close> throws when the step is
  \<open>null\<close>; \<open>name.toLowerCase()\<close> in \<open>getToolByName\<close> throws unless the name is a string.
\<close>

definition executeStep :: "env \<Rightarrow> json \<Rightarrow> string \<Rightarrow> world \<Rightarrow> (thrown + ToolExecution) \<times> world" where
  \<comment> \<open>the body of the loop of \<open>executePlan\<close>\<close>
  "executeStep E step task w =
     (if step = JNull then (Inl (typeError E (ReadOfNull ''tool'')), w)
      else
        (case property ''tool'' step of
           None \<Rightarrow> (Inl (typeError E (ReadOfUndefined ''toLowerCase'')), w)
         | Some JNull \<Rightarrow> (Inl (typeError E (ReadOfNull ''toLowerCase'')), w)
         | Some (JString name) \<Rightarrow>
             (case getToolByName name of
                None \<Rightarrow> (let (execution, w1) = unregistered E name w in (Inr execution, w1))
              | Some tool \<Rightarrow> t_execute tool E (property ''description'' step) \<lparr>tc_task = task\<rparr> w)
         | Some _ \<Rightarrow> (Inl (typeError E (NotAFunction ''name.toLowerCase'')), w)))"

fun executeSteps :: "env \<Rightarrow> json list \<Rightarrow> string \<Rightarrow> world \<Rightarrow> (thrown + ToolExecution list) \<times> world" where
  "executeSteps E [] task w = (Inr [], w)"
| "executeSteps E (step # rest) task w =
     (case executeStep E step task w of
        (Inl error, w1) \<Rightarrow> (Inl error, w1)
      | (Inr execution, w1) \<Rightarrow>
          (case executeSteps E rest task w1 of
             (Inl error, w2) \<Rightarrow> (Inl error, w2)
           | (Inr executions, w2) \<Rightarrow> (Inr (execution # executions), w2)))"

definition executePlan :: "env \<Rightarrow> json option \<Rightarrow> string \<Rightarrow> world \<Rightarrow> (thrown + ToolExecution list) \<times> world" where
  \<comment> \<open>\<open>for (const step of plan)\<close>: an array gives its elements, a string its characters,
      anything else is not iterable\<close>
  "executePlan E plan task w =
     (case plan of
        Some (JArray steps) \<Rightarrow> executeSteps E steps task w
      | Some (JString s) \<Rightarrow> executeSteps E (map (\<lambda>c. JString [c]) s) task w
      | _ \<Rightarrow> (Inl (typeError E (NotIterable ''plan'')), w))"

text \<open>
  The two calls to the LLM: the request is sent, and the reply is whatever the
  environment answers. The plan the summarizer is sent is the one that was executed.
\<close>

definition callOpenAIForPlan :: "env \<Rightarrow> string \<Rightarrow> world \<Rightarrow> (thrown + json) \<times> world" where
  "callOpenAIForPlan E task w = (planner E w task, PlanRequested task # w)"

definition callOpenAIForFinal ::
  "env \<Rightarrow> string \<Rightarrow> json option \<Rightarrow> ToolExecution list \<Rightarrow> world \<Rightarrow> (thrown + string) \<times> world" where
  "callOpenAIForFinal E task plan steps w = (summarizer E w task plan steps, FinalRequested task # w)"

definition noApiKey :: "env \<Rightarrow> bool" where
  \<comment> \<open>\<open>!apiKey\<close>: the variable is unset or empty\<close>
  "noApiKey E = (case OPENAI_API_KEY E of None \<Rightarrow> True | Some k \<Rightarrow> k = [])"

definition caught :: "env \<Rightarrow> int \<Rightarrow> thrown \<Rightarrow> world \<Rightarrow> (thrown + AgentOutcome) \<times> world" where
  \<comment> \<open>the catch clause of \<open>runAgentTask\<close>\<close>
  "caught E startedAt error w =
     (let (completedAt, w1) = newDate E w;
          message = caughtMessage error
      in (Inr \<lparr>ao_success = False, ao_plan = Some (JArray []), ao_steps = [], ao_final = [],
               ao_reasoning = Some (JString []),
               ao_meta = \<lparr>m_startedAt = isoString E startedAt, m_completedAt = isoString E completedAt,
                          m_durationMs = completedAt - startedAt\<rparr>,
               ao_error = Some message\<rparr>, w1))"

text \<open>
  \<open>runAgentTask\<close> returns a promise: \<open>Inr\<close> is the outcome it resolves to, \<open>Inl\<close> what
  it would reject with. Without a credential nothing catches an exception of
  \<open>executePlan\<close>; with one, the \<open>try\<close> block spans the planning call, the reading of
  \<open>planPayload.plan\<close> (which throws when the reply is \<open>null\<close>), the execution and the
  summarizing call.
\<close>

definition runAgentTask :: "env \<Rightarrow> string \<Rightarrow> world \<Rightarrow> (thrown + AgentOutcome) \<times> world" where
  "runAgentTask E task w0 =
     (let (startedAt, w) = newDate E w0 in
      if noApiKey E then
        (let (fallbackPlan, w1) = buildFallbackPlan E task w in
         case executePlan E (planJson (pp_plan fallbackPlan)) task w1 of
           (Inl error, w2) \<Rightarrow> (Inl error, w2)
         | (Inr steps, w2) \<Rightarrow>
             (let final = ''The live LLM backend is not configured, but here is an offline plan and tool output you can use as a starting point.'';
                  (completedAt, w3) = newDate E w2
              in (Inr \<lparr>ao_success = True, ao_plan = planJson (pp_plan fallbackPlan),
                       ao_steps = steps, ao_final = final,
                       ao_reasoning = Some (JString (pp_reasoning fallbackPlan)),
                       ao_meta = \<lparr>m_startedAt = isoString E startedAt,
                                  m_completedAt = isoString E completedAt, m_durationMs = 0\<rparr>,
                       ao_error = Some ''OpenAI API key missing. Configure OPENAI_API_KEY to enable full agentic reasoning.''\<rparr>,
                  w3)))
      else
        (case callOpenAIForPlan E task w of
           (Inl error, w1) \<Rightarrow> caught E startedAt error w1
         | (Inr planPayload, w1) \<Rightarrow>
             if planPayload = JNull then caught E startedAt (typeError E (ReadOfNull ''plan'')) w1
             else
               (case executePlan E (property ''plan'' planPayload) task w1 of
                  (Inl error, w2) \<Rightarrow> caught E startedAt error w2
                | (Inr steps, w2) \<Rightarrow>
                    (case callOpenAIForFinal E task (property ''plan'' planPayload) steps w2 of
                       (Inl error, w3) \<Rightarrow> caught E startedAt error w3
                     | (Inr final, w3) \<Rightarrow>
                         (let (completedAt, w4) = newDate E w3 in
                          (Inr \<lparr>ao_success = True, ao_plan = property ''plan'' planPayload,
                                ao_steps = steps, ao_final = final,
                                ao_reasoning = property ''reasoning'' planPayload,
                                ao_meta = \<lparr>m_startedAt = isoString E startedAt,
                                           m_completedAt = isoString E completedAt,
                                           m_durationMs = completedAt - startedAt\<rparr>,
                                ao_error = None\<rparr>, w4))))))"

section \<open>The invariant of execution records\<close>

definition wellFormed :: "ToolExecution \<Rightarrow> bool" where
  \<comment> \<open>\<open>error\<close> is set exactly on failure, and only a failure has an empty output\<close>
  "wellFormed r = (((te_error r \<noteq> None) = (\<not> te_success r)) \<and> (te_output r = [] \<longrightarrow> \<not> te_success r))"

section \<open>Concrete environments\<close>

text \<open>How one engine words its \<open>TypeError\<close>s.\<close>

fun describe :: "fault \<Rightarrow> string" where
  "describe (ReadOfUndefined p) =
     ''Cannot read properties of undefined (reading '' @ [CHR 0x27] @ p @ [CHR 0x27] @ '')''"
| "describe (ReadOfNull p) =
     ''Cannot read properties of null (reading '' @ [CHR 0x27] @ p @ [CHR 0x27] @ '')''"
| "describe (NotAFunction e) = e @ '' is not a function''"
| "describe (NotIterable e) = e @ '' is not iterable''"
| "describe (InOfPrimitive k v) = ''Cannot use the in operator to search for '' @ k"
| "describe NotPrimitive = ''Cannot convert object to primitive value''"

text \<open>
  A machine without the credential and without a network, whose JavaScript engine
  rejects every text it is given; its clock advances by one second with every event.
\<close>

definition offline :: env where
  "offline =
     \<lparr>OPENAI_API_KEY = None,
      uuid = (\<lambda>w. ''3b241101-e2bb-4255-8caf-4136c566a962''),
      clock = (\<lambda>w. 1000 * int (length w)),
      isoString = numberToString,
      network = (\<lambda>w url. Inl (Error ''fetch failed'')),
      engine = (\<lambda>w body. Inl (Error ''Unexpected token'')),
      wording = describe,
      planner = (\<lambda>w task. Inl (Error ''Connection error.'')),
      summarizer = (\<lambda>w task plan steps. Inl (Error ''Connection error.''))\<rparr>"

text \<open>The same machine with a credential; the LLM cannot be reached.\<close>

definition keyed :: env where
  "keyed = offline\<lparr>OPENAI_API_KEY := Some ''sk-test''\<rparr>"

text \<open>A credentialed machine whose planner answers and whose summarizer fails.\<close>

definition summaryFails :: env where
  "summaryFails =
     keyed\<lparr>planner := (\<lambda>w task. Inr (JObject
               [(''reasoning'', JString ''Look it up, then compute.''),
                (''plan'', JArray [planItemJson (knowledgeBaseStep ''s1''),
                                   planItemJson (calculatorStep ''s2'')])])),
           summarizer := (\<lambda>w task plan steps. Inl NonError)\<rparr>"

text \<open>A credentialed machine whose planner replies with an object that has no plan.\<close>

definition planless :: env where
  "planless =
     keyed\<lparr>planner := (\<lambda>w task. Inr (JObject [(''reasoning'', JString ''Nothing to do.'')])),
           summarizer := (\<lambda>w task plan steps. Inr ''Done.'')\<rparr>"




text \<open>
  A search endpoint that answers 200 with an abstract and five related texts, among
  members that the program does not read.
\<close>

definition answerData :: SearchData where
  "answerData =
     \<lparr>AbstractText = Some ''abstract'',
      RelatedTopics = Some
        [\<lparr>Text = Some ''one'', Name = None, Topics = None,
          topic_others = [(''FirstURL'', JString ''https://duckduckgo.com/one'')]\<rparr>,
         \<lparr>Text = None, Name = Some ''group'',
          Topics = Some [\<lparr>sub_Text = Some ''two'', sub_others = []\<rparr>,
                         \<lparr>sub_Text = None, sub_others = [(''Icon'', JNull)]\<rparr>,
                         \<lparr>sub_Text = Some ''three'', sub_others = []\<rparr>],
          topic_others = []\<rparr>,
         \<lparr>Text = Some [], Name = None, Topics = None, topic_others = []\<rparr>,
         \<lparr>Text = Some ''four'', Name = None, Topics = None, topic_others = []\<rparr>],
      data_others = [(''Heading'', JString ''Agentic AI''), (''Results'', JArray [])]\<rparr>"

definition answer :: Response where
  "answer = \<lparr>status = 200, json = Inr (searchDataJson answerData)\<rparr>"


text \<open>A plan whose first step names a tool that the registry does not have.\<close>

definition ghostPlan :: "PlanItem list" where
  "ghostPlan =
     [\<lparr>pi_id = ''g1'', pi_title = ''Export the figures'',
       pi_description = ''Write the figures to a sheet.'', pi_tool = ''spreadsheet''\<rparr>,
      knowledgeBaseStep ''g2'']"

section \<open>The executor\<close>

lemma getToolByName_in_TOOLKIT: "getToolByName n = Some tool \<Longrightarrow> tool \<in> set TOOLKIT"
  by (auto simp: getToolByName_def find_Some_iff)

lemma searchTool_tool: "te_tool (fst (searchTool E i w)) = ''webSearch''"
  by (simp add: searchTool_def searchFailed_def randomUUID_def fetch_def Let_def
      split: sum.splits prod.splits)

lemma calculatorTool_tool: "te_tool (fst (calculatorTool E i w)) = ''calculator''"
  by (simp add: calculatorTool_def callFunction_def randomUUID_def
      split: sum.splits option.splits)

lemma knowledgeBaseTool_tool: "te_tool (fst (knowledgeBaseTool E i c w)) = ''knowledgeBase''"
  by (simp add: knowledgeBaseTool_def randomUUID_def Let_def)

lemma onString_Inr:
  assumes "onString E name method v f w = (Inr r, w')"
  shows "\<exists>s. v = Some (JString s) \<and> f s w = (r, w')"
  using assms
  by (auto simp: onString_def case_prod_beta prod_eq_iff split: option.splits json.splits)

lemma onString_string: "onString E name method (Some (JString s)) f w = (Inr (fst (f s w)), snd (f s w))"
  by (simp add: onString_def case_prod_beta)

lemma orTask_string: "orTask (Some (JString s)) c = Some (JString (orElse s (tc_task c)))"
  by (simp add: orTask_def orElse_def)

lemma TOOLKIT_entries:
  assumes "tool \<in> set TOOLKIT"
  obtains
    (search) "t_name tool = ''webSearch''" and
      "t_execute tool = (\<lambda>E input context.
          onString E ''input'' ''trim'' (orTask input context) (searchTool E))"
  | (calculator) "t_name tool = ''calculator''" and
      "t_execute tool = (\<lambda>E input context. onString E ''input'' ''trim'' input (calculatorTool E))"
  | (knowledge) "t_name tool = ''knowledgeBase''" and
      "t_execute tool = (\<lambda>E input context.
          onString E ''query'' ''toLowerCase'' (orTask input context)
            (\<lambda>s. knowledgeBaseTool E s context))"
proof -
  from assms have
    "tool = \<lparr>t_name = ''webSearch'',
       t_description = ''Live web search using DuckDuckGo instant answer API.'',
       t_execute = (\<lambda>E input context.
          onString E ''input'' ''trim'' (orTask input context) (searchTool E))\<rparr>
     \<or> tool = \<lparr>t_name = ''calculator'',
       t_description = ''Solve mathematical expressions including +, -, *, /, %, and ^.'',
       t_execute = (\<lambda>E input context.
          onString E ''input'' ''trim'' input (calculatorTool E))\<rparr>
     \<or> tool = \<lparr>t_name = ''knowledgeBase'',
       t_description = ''Query snippets from a curated strategy and AI knowledge base.'',
       t_execute = (\<lambda>E input context.
          onString E ''query'' ''toLowerCase'' (orTask input context)
            (\<lambda>s. knowledgeBaseTool E s context))\<rparr>"
    unfolding TOOLKIT_def by simp
  then show ?thesis
  proof (elim disjE)
    assume "tool = \<lparr>t_name = ''webSearch'',
       t_description = ''Live web search using DuckDuckGo instant answer API.'',
       t_execute = (\<lambda>E input context.
          onString E ''input'' ''trim'' (orTask input context) (searchTool E))\<rparr>"
    then show ?thesis by (intro search) simp_all
  next
    assume "tool = \<lparr>t_name = ''calculator'',
       t_description = ''Solve mathematical expressions including +, -, *, /, %, and ^.'',
       t_execute = (\<lambda>E input context.
          onString E ''input'' ''trim'' input (calculatorTool E))\<rparr>"
    then show ?thesis by (intro calculator) simp_all
  next
    assume "tool = \<lparr>t_name = ''knowledgeBase'',
       t_description = ''Query snippets from a curated strategy and AI knowledge base.'',
       t_execute = (\<lambda>E input context.
          onString E ''query'' ''toLowerCase'' (orTask input context)
            (\<lambda>s. knowledgeBaseTool E s context))\<rparr>"
    then show ?thesis by (intro knowledge) simp_all
  qed
qed

text \<open>Given a string, an entry of the registry returns a record; it carries the tool's name.\<close>

lemma TOOLKIT_on_string:
  assumes "tool \<in> set TOOLKIT"
  shows "\<exists>r. fst (t_execute tool E (Some (JString s)) c w) = Inr r \<and> te_tool r = t_name tool"
  using assms
proof (cases rule: TOOLKIT_entries)
  case search
  then show ?thesis by (simp add: onString_string orTask_string searchTool_tool)
next
  case calculator
  then show ?thesis by (simp add: onString_string calculatorTool_tool)
next
  case knowledge
  then show ?thesis by (simp add: onString_string orTask_string knowledgeBaseTool_tool)
qed

lemma TOOLKIT_tool:
  assumes "tool \<in> set TOOLKIT" and "fst (t_execute tool E v c w) = Inr r"
  shows "te_tool r = t_name tool"
proof -
  obtain w' where r: "t_execute tool E v c w = (Inr r, w')"
    using assms(2) by (cases "t_execute tool E v c w") simp
  from assms(1) show ?thesis
  proof (cases rule: TOOLKIT_entries)
    case search
    with r obtain s where "searchTool E s w = (r, w')"
      by (auto dest: onString_Inr)
    with search searchTool_tool [of E s w] show ?thesis by simp
  next
    case calculator
    with r obtain s where "calculatorTool E s w = (r, w')"
      by (auto dest: onString_Inr)
    with calculator calculatorTool_tool [of E s w] show ?thesis by simp
  next
    case knowledge
    with r obtain s where "knowledgeBaseTool E s c w = (r, w')"
      by (auto dest: onString_Inr)
    with knowledge knowledgeBaseTool_tool [of E s c w] show ?thesis by simp
  qed
qed

lemma property_planItemJson:
  "property ''tool'' (planItemJson step) = Some (JString (pi_tool step))"
  "property ''description'' (planItemJson step) = Some (JString (pi_description step))"
  "planItemJson step \<noteq> JNull"
  by (simp_all add: property_def planItemJson_def)

text \<open>What the loop body does with a plan item of the declared type.\<close>

lemma executeStep_typed:
  "executeStep E (planItemJson step) task w =
     (case getToolByName (pi_tool step) of
        None \<Rightarrow> (Inr (fst (unregistered E (pi_tool step) w)), snd (unregistered E (pi_tool step) w))
      | Some tool \<Rightarrow> t_execute tool E (Some (JString (pi_description step))) \<lparr>tc_task = task\<rparr> w)"
  by (simp add: executeStep_def property_planItemJson case_prod_beta split: option.splits)

lemma executeStep_typed_Inr:
  "\<exists>r. fst (executeStep E (planItemJson step) task w) = Inr r"
proof (cases "getToolByName (pi_tool step)")
  case None
  then show ?thesis by (simp add: executeStep_typed)
next
  case (Some tool)
  with TOOLKIT_on_string [OF getToolByName_in_TOOLKIT [OF Some], of E "pi_description step" "\<lparr>tc_task = task\<rparr>" w]
  show ?thesis by (auto simp: executeStep_typed)
qed

lemma executeSteps_typed:
  "\<exists>records. fst (executeSteps E (map planItemJson plan) task w) = Inr records \<and>
             length records = length plan"
proof (induction plan arbitrary: w)
  case Nil
  show ?case by simp
next
  case (Cons step rest)
  obtain r where r: "fst (executeStep E (planItemJson step) task w) = Inr r"
    using executeStep_typed_Inr by blast
  obtain rs where rs: "fst (executeSteps E (map planItemJson rest) task
        (snd (executeStep E (planItemJson step) task w))) = Inr rs" "length rs = length rest"
    using Cons.IH by blast
  from r rs show ?case
    by (cases "executeStep E (planItemJson step) task w";
        cases "executeSteps E (map planItemJson rest) task (snd (executeStep E (planItemJson step) task w))")
       auto
qed

text \<open>
  When the loop returns, the record at position \<open>i\<close> is the one the loop body makes of
  step \<open>i\<close>, in the world that the steps before it have left.
\<close>

lemma executeSteps_length:
  "fst (executeSteps E steps task w) = Inr records \<Longrightarrow> length records = length steps"
proof (induction steps arbitrary: w records)
  case Nil
  then show ?case by simp
next
  case (Cons step rest)
  from Cons.prems obtain r w1 rs w2 where
    "executeStep E step task w = (Inr r, w1)" and
    t: "executeSteps E rest task w1 = (Inr rs, w2)" and
    e: "records = r # rs"
    by (auto split: prod.splits sum.splits)
  from t have "fst (executeSteps E rest task w1) = Inr rs" by simp
  from Cons.IH [OF this] e show ?case by simp
qed

lemma executeSteps_append:
  "executeSteps E (xs @ ys) task w =
     (case executeSteps E xs task w of
        (Inl error, w1) \<Rightarrow> (Inl error, w1)
      | (Inr rs, w1) \<Rightarrow>
          (case executeSteps E ys task w1 of
             (Inl error, w2) \<Rightarrow> (Inl error, w2)
           | (Inr ss, w2) \<Rightarrow> (Inr (rs @ ss), w2)))"
  by (induction xs arbitrary: w) (auto split: prod.splits sum.splits)

lemma executeSteps_nth:
  assumes "fst (executeSteps E steps task w) = Inr records" and "i < length steps"
  shows "fst (executeStep E (steps ! i) task (snd (executeSteps E (take i steps) task w)))
           = Inr (records ! i)"
proof -
  from assms(2) have split: "steps = take i steps @ (steps ! i # drop (Suc i) steps)"
    by (rule id_take_nth_drop)
  from assms(1) have "fst (executeSteps E (take i steps @ (steps ! i # drop (Suc i) steps)) task w)
      = Inr records"
    using split by simp
  then obtain rs w1 r w2 ss w3 where
    a: "executeSteps E (take i steps) task w = (Inr rs, w1)" and
    b: "executeStep E (steps ! i) task w1 = (Inr r, w2)" and
    c: "executeSteps E (drop (Suc i) steps) task w2 = (Inr ss, w3)" and
    d: "records = rs @ r # ss"
    unfolding executeSteps_append by (auto split: prod.splits sum.splits)
  from a have "length rs = length (take i steps)"
    using executeSteps_length [of E "take i steps" task w rs] by simp
  with assms(2) have "length rs = i" by simp
  with d have "records ! i = r" by (simp add: nth_append)
  with a b show ?thesis by simp
qed

text \<open>
  C2. For every plan of the declared type, \<open>executePlan\<close> returns (it does not throw) one
  record per plan item, in the order of the plan. The record at position \<open>i\<close> is made in
  the world that the steps before it have left: when the tool of step \<open>i\<close> is not in
  the registry, it is the record of an unregistered tool, with \<open>success = false\<close> and the
  non-empty error \<open>Tool <name> is not registered.\<close>; when the tool is found, it is the
  record that the tool's \<open>execute\<close> returns for the step's description and the task.
  This holds at every position, so the steps after a missing tool are executed like any
  other.
\<close>

theorem executePlan_one_record_per_step:
  "\<exists>records.
     fst (executePlan E (planJson plan) task w) = Inr records \<and>
     length records = length plan \<and>
     (\<forall>i < length plan.
        (case getToolByName (pi_tool (plan ! i)) of
           None \<Rightarrow>
             records ! i = fst (unregistered E (pi_tool (plan ! i))
                                  (snd (executePlan E (planJson (take i plan)) task w))) \<and>
             te_success (records ! i) = False \<and>
             te_error (records ! i) = Some (''Tool '' @ pi_tool (plan ! i) @ '' is not registered.'') \<and>
             te_error (records ! i) \<noteq> Some [] \<and>
             te_tool (records ! i) = pi_tool (plan ! i)
         | Some tool \<Rightarrow>
             fst (t_execute tool E (Some (JString (pi_description (plan ! i)))) \<lparr>tc_task = task\<rparr>
                    (snd (executePlan E (planJson (take i plan)) task w)))
               = Inr (records ! i) \<and>
             te_tool (records ! i) = t_name tool))"
proof -
  obtain records where
    r: "fst (executeSteps E (map planItemJson plan) task w) = Inr records" and
    n: "length records = length plan"
    using executeSteps_typed by blast
  have each: "case getToolByName (pi_tool (plan ! i)) of
           None \<Rightarrow>
             records ! i = fst (unregistered E (pi_tool (plan ! i))
                                  (snd (executePlan E (planJson (take i plan)) task w))) \<and>
             te_success (records ! i) = False \<and>
             te_error (records ! i) = Some (''Tool '' @ pi_tool (plan ! i) @ '' is not registered.'') \<and>
             te_error (records ! i) \<noteq> Some [] \<and>
             te_tool (records ! i) = pi_tool (plan ! i)
         | Some tool \<Rightarrow>
             fst (t_execute tool E (Some (JString (pi_description (plan ! i)))) \<lparr>tc_task = task\<rparr>
                    (snd (executePlan E (planJson (take i plan)) task w)))
               = Inr (records ! i) \<and>
             te_tool (records ! i) = t_name tool"
    if i: "i < length plan" for i
  proof -
    let ?w = "snd (executePlan E (planJson (take i plan)) task w)"
    from i have "i < length (map planItemJson plan)" by simp
    from executeSteps_nth [OF r this] i
    have s: "fst (executeStep E (planItemJson (plan ! i)) task ?w) = Inr (records ! i)"
      by (simp add: executePlan_def planJson_def take_map)
    show ?thesis
    proof (cases "getToolByName (pi_tool (plan ! i))")
      case None
      with s have "records ! i = fst (unregistered E (pi_tool (plan ! i)) ?w)"
        by (simp add: executeStep_typed)
      with None show ?thesis
        by (simp add: unregistered_def randomUUID_def)
    next
      case (Some tool)
      with s have x: "fst (t_execute tool E (Some (JString (pi_description (plan ! i))))
          \<lparr>tc_task = task\<rparr> ?w) = Inr (records ! i)"
        by (simp add: executeStep_typed)
      from TOOLKIT_tool [OF getToolByName_in_TOOLKIT [OF Some] x] Some x
      show ?thesis by simp
    qed
  qed
  from r n each show ?thesis
    by (auto simp: executePlan_def planJson_def)
qed

theorem executePlan_one_record_per_step_witness:
  "(0::nat) < length ghostPlan \<and>
   getToolByName (pi_tool (ghostPlan ! 0)) = None \<and>
   (1::nat) < length ghostPlan \<and>
   getToolByName (pi_tool (ghostPlan ! 1)) = Some (TOOLKIT ! 2) \<and>
   (\<exists>records.
      fst (executePlan offline (planJson ghostPlan) ''Plan a product launch'' []) = Inr records \<and>
      length records = 2 \<and>
      te_success (records ! 0) = False \<and>
      te_error (records ! 0) = Some ''Tool spreadsheet is not registered.'' \<and>
      fst (t_execute (TOOLKIT ! 2) offline
             (Some (JString ''Consult the knowledge base for strategic or evergreen guidance.''))
             \<lparr>tc_task = ''Plan a product launch''\<rparr>
             (snd (executePlan offline (planJson (take 1 ghostPlan)) ''Plan a product launch'' [])))
        = Inr (records ! 1) \<and>
      te_tool (records ! 1) = ''knowledgeBase'')"
proof -
  have g: "getToolByName ''spreadsheet'' = None" by code_simp
  have k: "getToolByName ''knowledgeBase'' = Some (TOOLKIT ! 2)"
    by (simp add: getToolByName_def TOOLKIT_def toLowerCase_def lowerChar_def code_def)
  have n: "length ghostPlan = 2" by (simp add: ghostPlan_def)
  have p0: "pi_tool (ghostPlan ! 0) = ''spreadsheet''" by (simp add: ghostPlan_def)
  have p1: "pi_tool (ghostPlan ! 1) = ''knowledgeBase''"
    by (simp add: ghostPlan_def knowledgeBaseStep_def)
  have d1: "pi_description (ghostPlan ! 1)
      = ''Consult the knowledge base for strategic or evergreen guidance.''"
    by (simp add: ghostPlan_def knowledgeBaseStep_def)
  have t2: "t_name (TOOLKIT ! 2) = ''knowledgeBase''" by (simp add: TOOLKIT_def)
  from executePlan_one_record_per_step [of offline ghostPlan "''Plan a product launch''" "[]"]
  obtain records where
    r: "fst (executePlan offline (planJson ghostPlan) ''Plan a product launch'' []) = Inr records" and
    l: "length records = length ghostPlan" and
    each: "\<And>i. i < length ghostPlan \<Longrightarrow>
        (case getToolByName (pi_tool (ghostPlan ! i)) of
           None \<Rightarrow>
             records ! i = fst (unregistered offline (pi_tool (ghostPlan ! i))
                                  (snd (executePlan offline (planJson (take i ghostPlan)) ''Plan a product launch'' []))) \<and>
             te_success (records ! i) = False \<and>
             te_error (records ! i) = Some (''Tool '' @ pi_tool (ghostPlan ! i) @ '' is not registered.'') \<and>
             te_error (records ! i) \<noteq> Some [] \<and>
             te_tool (records ! i) = pi_tool (ghostPlan ! i)
         | Some tool \<Rightarrow>
             fst (t_execute tool offline (Some (JString (pi_description (ghostPlan ! i))))
                    \<lparr>tc_task = ''Plan a product launch''\<rparr>
                    (snd (executePlan offline (planJson (take i ghostPlan)) ''Plan a product launch'' [])))
               = Inr (records ! i) \<and>
             te_tool (records ! i) = t_name tool)"
    by blast
  have r0: "te_success (records ! 0) = False \<and>
            te_error (records ! 0) = Some ''Tool spreadsheet is not registered.''"
    using each [of 0] n g p0 by (simp add: unregistered_def randomUUID_def)
  have r1: "fst (t_execute (TOOLKIT ! 2) offline
             (Some (JString ''Consult the knowledge base for strategic or evergreen guidance.''))
             \<lparr>tc_task = ''Plan a product launch''\<rparr>
             (snd (executePlan offline (planJson (take 1 ghostPlan)) ''Plan a product launch'' [])))
        = Inr (records ! 1) \<and>
      te_tool (records ! 1) = ''knowledgeBase''"
    using each [of 1] n k p1 d1 t2 by simp
  from g k n p0 p1 r l r0 r1 show ?thesis by auto
qed

section \<open>The invariant of execution records, proved\<close>

lemma join_nonempty: "xs \<noteq> [] \<Longrightarrow> \<forall>x\<in>set xs. x \<noteq> [] \<Longrightarrow> join sep xs \<noteq> []"
  by (induction sep xs rule: join.induct) auto

lemma render_nonempty: "render e \<noteq> []"
  by (simp add: render_def bullet_def)

lemma searchTool_wellFormed: "wellFormed (fst (searchTool E i w))"
  by (simp add: wellFormed_def searchTool_def searchFailed_def randomUUID_def fetch_def
      Let_def orElse_def split: sum.splits prod.splits)

lemma calculatorTool_wellFormed: "wellFormed (fst (calculatorTool E i w))"
  by (simp add: wellFormed_def calculatorTool_def callFunction_def randomUUID_def
      split: sum.splits option.splits)

lemma knowledgeBaseTool_wellFormed: "wellFormed (fst (knowledgeBaseTool E i c w))"
  by (simp add: wellFormed_def knowledgeBaseTool_def randomUUID_def Let_def
      join_nonempty render_nonempty)

lemma unregistered_wellFormed: "wellFormed (fst (unregistered E name w))"
  by (simp add: wellFormed_def unregistered_def randomUUID_def)

lemma TOOLKIT_wellFormed:
  assumes "tool \<in> set TOOLKIT" and "fst (t_execute tool E v c w) = Inr r"
  shows "wellFormed r"
proof -
  obtain w' where r: "t_execute tool E v c w = (Inr r, w')"
    using assms(2) by (cases "t_execute tool E v c w") simp
  from assms(1) show ?thesis
  proof (cases rule: TOOLKIT_entries)
    case search
    with r obtain s where "searchTool E s w = (r, w')"
      by (auto dest: onString_Inr)
    with searchTool_wellFormed [of E s w] show ?thesis by simp
  next
    case calculator
    with r obtain s where "calculatorTool E s w = (r, w')"
      by (auto dest: onString_Inr)
    with calculatorTool_wellFormed [of E s w] show ?thesis by simp
  next
    case knowledge
    with r obtain s where "knowledgeBaseTool E s c w = (r, w')"
      by (auto dest: onString_Inr)
    with knowledgeBaseTool_wellFormed [of E s c w] show ?thesis by simp
  qed
qed

lemma executeStep_wellFormed:
  assumes "fst (executeStep E step task w) = Inr r"
  shows "wellFormed r"
proof -
  from assms obtain name where
    n: "property ''tool'' step = Some (JString name)" and s: "step \<noteq> JNull"
    by (auto simp: executeStep_def split: if_splits option.splits json.splits)
  show ?thesis
  proof (cases "getToolByName name")
    case None
    with assms n s have "r = fst (unregistered E name w)"
      by (simp add: executeStep_def case_prod_beta)
    then show ?thesis by (simp add: unregistered_wellFormed)
  next
    case (Some tool)
    with assms n s have "fst (t_execute tool E (property ''description'' step) \<lparr>tc_task = task\<rparr> w) = Inr r"
      by (simp add: executeStep_def)
    from TOOLKIT_wellFormed [OF getToolByName_in_TOOLKIT [OF Some] this] show ?thesis .
  qed
qed

lemma executeSteps_wellFormed:
  "fst (executeSteps E steps task w) = Inr records \<Longrightarrow> r \<in> set records \<Longrightarrow> wellFormed r"
proof (induction steps arbitrary: w records)
  case Nil
  then show ?case by simp
next
  case (Cons step rest)
  from Cons.prems(1) obtain x w1 xs w2 where
    s: "executeStep E step task w = (Inr x, w1)" and
    t: "executeSteps E rest task w1 = (Inr xs, w2)" and
    e: "records = x # xs"
    by (auto split: prod.splits sum.splits)
  from s have "wellFormed x" using executeStep_wellFormed [of E step task w x] by simp
  moreover from t have "fst (executeSteps E rest task w1) = Inr xs" by simp
  note Cons.IH [OF this]
  ultimately show ?case using Cons.prems(2) e by auto
qed

lemma executePlan_wellFormed:
  assumes "fst (executePlan E plan task w) = Inr records" and "r \<in> set records"
  shows "wellFormed r"
proof -
  from assms(1) obtain steps where "fst (executeSteps E steps task w) = Inr records"
    by (auto simp: executePlan_def split: option.splits json.splits)
  from executeSteps_wellFormed [OF this assms(2)] show ?thesis .
qed

text \<open>
  C5. Every record that a tool returns, the record the executor makes for an unregistered
  tool, and every record in the list the executor returns satisfies the invariant: the
  error field is present exactly when \<open>success\<close> is false, and the output is empty only
  when \<open>success\<close> is false. This is so for the three tool functions on every string; for
  the three entries of the registry, which return a record for every string and, for any
  other value, either throw or return a record; and for \<open>executePlan\<close>, which returns a
  list for every plan of the declared type and, for any other value, either throws or
  returns a list.
\<close>

theorem execution_records_wellFormed:
  "wellFormed (fst (searchTool E input w)) \<and>
   wellFormed (fst (calculatorTool E input w)) \<and>
   wellFormed (fst (knowledgeBaseTool E input context w)) \<and>
   (\<forall>tool\<in>set TOOLKIT.
      (\<exists>r. fst (t_execute tool E (Some (JString input)) context w) = Inr r \<and> wellFormed r) \<and>
      (\<forall>r. fst (t_execute tool E v context w) = Inr r \<longrightarrow> wellFormed r)) \<and>
   wellFormed (fst (unregistered E name w)) \<and>
   (\<exists>records. fst (executePlan E (planJson plan) task w) = Inr records \<and>
      length records = length plan \<and> (\<forall>r\<in>set records. wellFormed r)) \<and>
   (\<forall>records. fst (executePlan E p task w) = Inr records \<longrightarrow> (\<forall>r\<in>set records. wellFormed r))"
proof -
  have a: "\<exists>r. fst (t_execute tool E (Some (JString input)) context w) = Inr r \<and> wellFormed r"
    if m: "tool \<in> set TOOLKIT" for tool
    using TOOLKIT_on_string [OF m, of E input "context" w] TOOLKIT_wellFormed [OF m] by blast
  have b: "\<exists>records. fst (executePlan E (planJson plan) task w) = Inr records \<and>
      length records = length plan \<and> (\<forall>r\<in>set records. wellFormed r)"
    using executeSteps_typed [of E plan task w] executePlan_wellFormed [of E "planJson plan" task w]
    by (auto simp: executePlan_def planJson_def)
  from a b show ?thesis
    by (simp add: searchTool_wellFormed calculatorTool_wellFormed knowledgeBaseTool_wellFormed
        unregistered_wellFormed) (blast intro: TOOLKIT_wellFormed executePlan_wellFormed)
qed

theorem execution_records_wellFormed_witness:
  "te_output (fst (calculatorTool offline ''2 $'' [])) = [] \<and>
   te_success (fst (calculatorTool offline ''2 $'' [])) = False \<and>
   te_error (fst (calculatorTool offline ''2 $'' [])) \<noteq> None \<and>
   wellFormed (fst (calculatorTool offline ''2 $'' [])) \<and>
   TOOLKIT ! 1 \<in> set TOOLKIT \<and>
   (\<exists>r. fst (t_execute (TOOLKIT ! 1) offline (Some (JString ''2 $''))
               \<lparr>tc_task = ''Plan a product launch''\<rparr> []) = Inr r \<and>
        wellFormed r \<and> te_output r = [] \<and> te_success r = False) \<and>
   (\<exists>records. fst (executePlan offline (planJson ghostPlan) ''Plan a product launch'' []) = Inr records \<and>
      length records = 2 \<and> records ! 0 \<in> set records \<and> wellFormed (records ! 0))"
proof -
  note t = execution_records_wellFormed [of offline "''2 $''" "[]"
      "\<lparr>tc_task = ''Plan a product launch''\<rparr>" "None" "[]" ghostPlan "''Plan a product launch''" None]
  have c: "trim ''2 $'' \<noteq> []" "\<not> isSafeMathExpression ''2 $''" by code_simp+
  have o: "te_output (fst (calculatorTool offline ''2 $'' [])) = [] \<and>
   te_success (fst (calculatorTool offline ''2 $'' [])) = False \<and>
   te_error (fst (calculatorTool offline ''2 $'' [])) \<noteq> None"
    using c by (simp add: calculatorTool_def randomUUID_def)
  have m: "TOOLKIT ! 1 \<in> set TOOLKIT" by (simp add: TOOLKIT_def)
  have x: "fst (t_execute (TOOLKIT ! 1) offline (Some (JString ''2 $''))
               \<lparr>tc_task = ''Plan a product launch''\<rparr> []) = Inr (fst (calculatorTool offline ''2 $'' []))"
    by (simp add: TOOLKIT_def onString_string)
  from t have w: "wellFormed (fst (calculatorTool offline ''2 $'' []))" by blast
  from t obtain records where
    r: "fst (executePlan offline (planJson ghostPlan) ''Plan a product launch'' []) = Inr records" and
    l: "length records = length ghostPlan" and
    a: "\<forall>r\<in>set records. wellFormed r"
    by blast
  from l have l2: "length records = 2" by (simp add: ghostPlan_def)
  then have i: "records ! 0 \<in> set records" by simp
  with a have "wellFormed (records ! 0)" by blast
  with o m x w r l2 i show ?thesis by auto
qed

section \<open>The heuristic planner\<close>

lemma buildFallbackPlan_tools:
  "map pi_tool (pp_plan (fst (buildFallbackPlan E task w))) =
     (if analysisPattern (toLowerCase task) then [''calculator''] else []) @
     (if researchPattern (toLowerCase task) then [''webSearch''] else []) @
     [''knowledgeBase'']"
  by (simp add: buildFallbackPlan_def randomUUID_def FALLBACK_PLAN_LIMIT_def Let_def
      calculatorStep_def webSearchStep_def knowledgeBaseStep_def)

text \<open>
  C3. For every task the fallback plan has between one and three steps, its last step is
  bound to the knowledge-base tool, and the knowledge-base step is always there: the plan's
  tools are \<open>calculator\<close> if the analysis pattern matches the lower-cased task, then
  \<open>webSearch\<close> if the research pattern matches, then \<open>knowledgeBase\<close>. The cap of three
  never cuts anything, since at most three steps are appended. A task that matches neither
  pattern gets the single step \<open>knowledgeBase\<close>.
\<close>

theorem buildFallbackPlan_shape:
  "1 \<le> length (pp_plan (fst (buildFallbackPlan E task w))) \<and>
   length (pp_plan (fst (buildFallbackPlan E task w))) \<le> 3 \<and>
   pi_tool (last (pp_plan (fst (buildFallbackPlan E task w)))) = ''knowledgeBase'' \<and>
   ''knowledgeBase'' \<in> set (map pi_tool (pp_plan (fst (buildFallbackPlan E task w)))) \<and>
   map pi_tool (pp_plan (fst (buildFallbackPlan E task w))) =
     (if analysisPattern (toLowerCase task) then [''calculator''] else []) @
     (if researchPattern (toLowerCase task) then [''webSearch''] else []) @
     [''knowledgeBase''] \<and>
   (\<not> analysisPattern (toLowerCase task) \<and> \<not> researchPattern (toLowerCase task) \<longrightarrow>
      map pi_tool (pp_plan (fst (buildFallbackPlan E task w))) = [''knowledgeBase''])"
  by (simp add: buildFallbackPlan_def randomUUID_def FALLBACK_PLAN_LIMIT_def Let_def
      calculatorStep_def webSearchStep_def knowledgeBaseStep_def)

theorem buildFallbackPlan_shape_witness:
  "\<not> analysisPattern (toLowerCase ''Plan a product launch'') \<and>
   \<not> researchPattern (toLowerCase ''Plan a product launch'') \<and>
   map pi_tool (pp_plan (fst (buildFallbackPlan offline ''Plan a product launch'' []))) = [''knowledgeBase''] \<and>
   analysisPattern (toLowerCase ''Calculate the ROI'') \<and>
   \<not> researchPattern (toLowerCase ''Calculate the ROI'') \<and>
   map pi_tool (pp_plan (fst (buildFallbackPlan offline ''Calculate the ROI'' [])))
     = [''calculator'', ''knowledgeBase''] \<and>
   map pi_tool (pp_plan (fst (buildFallbackPlan offline ''Analyze the latest market'' [])))
     = [''calculator'', ''webSearch'', ''knowledgeBase'']"
proof -
  have a: "\<not> analysisPattern (toLowerCase ''Plan a product launch'')" by code_simp
  have b: "\<not> researchPattern (toLowerCase ''Plan a product launch'')" by code_simp
  have c: "analysisPattern (toLowerCase ''Calculate the ROI'')" by code_simp
  have d: "\<not> researchPattern (toLowerCase ''Calculate the ROI'')" by code_simp
  have e: "analysisPattern (toLowerCase ''Analyze the latest market'')" by code_simp
  have f: "researchPattern (toLowerCase ''Analyze the latest market'')" by code_simp
  from buildFallbackPlan_shape [of offline "''Plan a product launch''" "[]"]
       buildFallbackPlan_shape [of offline "''Calculate the ROI''" "[]"]
       buildFallbackPlan_shape [of offline "''Analyze the latest market''" "[]"]
       a b c d e f
  show ?thesis by simp
qed

section \<open>The top-level run\<close>

lemma executePlan_typed:
  "\<exists>records w'. executePlan E (planJson plan) task w = (Inr records, w') \<and>
                length records = length plan"
  using executeSteps_typed [of E plan task w]
  by (cases "executeSteps E (map planItemJson plan) task w")
     (auto simp: executePlan_def planJson_def)

text \<open>
  C1. Without a credential (the variable unset or empty), for every task the run returns an
  outcome (it does not reject) with \<open>success = true\<close>, the error naming the missing key,
  a non-empty plan (the fallback plan), as many step records as plan items, and the fixed
  sentence as \<open>final\<close>.
\<close>

theorem runAgentTask_without_credential:
  assumes "noApiKey E"
  shows "\<exists>out.
           fst (runAgentTask E task w) = Inr out \<and>
           ao_success out = True \<and>
           ao_error out
             = Some ''OpenAI API key missing. Configure OPENAI_API_KEY to enable full agentic reasoning.'' \<and>
           ao_plan out = planJson (pp_plan (fst (buildFallbackPlan E task (NewDate # w)))) \<and>
           pp_plan (fst (buildFallbackPlan E task (NewDate # w))) \<noteq> [] \<and>
           ao_plan out \<noteq> Some (JArray []) \<and>
           length (ao_steps out) = length (pp_plan (fst (buildFallbackPlan E task (NewDate # w)))) \<and>
           ao_final out
             = ''The live LLM backend is not configured, but here is an offline plan and tool output you can use as a starting point.''"
proof -
  let ?fb = "buildFallbackPlan E task (NewDate # w)"
  have ne: "pp_plan (fst ?fb) \<noteq> []"
    using buildFallbackPlan_tools [of E task "NewDate # w"] by (auto split: if_splits)
  obtain records w' where
    x: "executePlan E (planJson (pp_plan (fst ?fb))) task (snd ?fb) = (Inr records, w')" and
    l: "length records = length (pp_plan (fst ?fb))"
    using executePlan_typed by blast
  from ne have "planJson (pp_plan (fst ?fb)) \<noteq> Some (JArray [])"
    by (simp add: planJson_def)
  with assms ne x l show ?thesis
    by (simp add: runAgentTask_def newDate_def case_prod_beta Let_def)
qed

theorem runAgentTask_without_credential_witness:
  "noApiKey offline \<and>
   (\<exists>out.
      fst (runAgentTask offline ''Plan a product launch'' []) = Inr out \<and>
      ao_success out = True \<and>
      ao_error out
        = Some ''OpenAI API key missing. Configure OPENAI_API_KEY to enable full agentic reasoning.'' \<and>
      ao_plan out \<noteq> Some (JArray []) \<and>
      ao_plan out = planJson (pp_plan (fst (buildFallbackPlan offline ''Plan a product launch'' [NewDate]))) \<and>
      length (ao_steps out)
        = length (pp_plan (fst (buildFallbackPlan offline ''Plan a product launch'' [NewDate]))) \<and>
      ao_final out
        = ''The live LLM backend is not configured, but here is an offline plan and tool output you can use as a starting point.'')"
proof -
  have h: "noApiKey offline" by (simp add: noApiKey_def offline_def)
  from runAgentTask_without_credential [OF h, of "''Plan a product launch''" "[]"] h
  show ?thesis by blast
qed

text \<open>
  C6. With a credential, whenever the planning call throws, or step execution throws (the
  reading of the reply's plan, when the reply is \<open>null\<close>, or \<open>executePlan\<close> itself, on a
  plan that is not iterable, on a step without a tool name, or in a tool given a
  description that is not a string), or the plan is executed and the summarizing call
  throws, the run returns an outcome with \<open>success = false\<close>, an empty plan, no steps, an
  empty \<open>final\<close>, and as error the message of what was caught: the message of an
  \<open>Error\<close>, and \<open>Unknown error\<close> for any other thrown value.
\<close>

theorem runAgentTask_credentialed_failure:
  assumes "\<not> noApiKey E"
    and "fst (callOpenAIForPlan E task (NewDate # w)) = Inl err \<or>
         (fst (callOpenAIForPlan E task (NewDate # w)) = Inr JNull \<and>
            err = typeError E (ReadOfNull ''plan'')) \<or>
         (\<exists>payload.
            fst (callOpenAIForPlan E task (NewDate # w)) = Inr payload \<and> payload \<noteq> JNull \<and>
            fst (executePlan E (property ''plan'' payload) task
                   (snd (callOpenAIForPlan E task (NewDate # w)))) = Inl err) \<or>
         (\<exists>payload steps w2.
            fst (callOpenAIForPlan E task (NewDate # w)) = Inr payload \<and> payload \<noteq> JNull \<and>
            executePlan E (property ''plan'' payload) task
              (snd (callOpenAIForPlan E task (NewDate # w))) = (Inr steps, w2) \<and>
            fst (callOpenAIForFinal E task (property ''plan'' payload) steps w2) = Inl err)"
  shows "\<exists>out.
           fst (runAgentTask E task w) = Inr out \<and>
           ao_success out = False \<and>
           ao_plan out = Some (JArray []) \<and>
           ao_steps out = [] \<and>
           ao_final out = [] \<and>
           ao_error out = Some (caughtMessage err) \<and>
           (\<forall>message. err = Error message \<longrightarrow> ao_error out = Some message)"
  using assms
  by (auto simp: runAgentTask_def newDate_def caught_def callOpenAIForPlan_def
      callOpenAIForFinal_def case_prod_beta Let_def split: sum.splits)

theorem runAgentTask_credentialed_failure_witness:
  "\<not> noApiKey keyed \<and>
   fst (callOpenAIForPlan keyed ''Plan a product launch'' [NewDate]) = Inl (Error ''Connection error.'') \<and>
   (\<exists>out. fst (runAgentTask keyed ''Plan a product launch'' []) = Inr out \<and>
      ao_success out = False \<and> ao_plan out = Some (JArray []) \<and> ao_steps out = [] \<and>
      ao_final out = [] \<and> ao_error out = Some ''Connection error.'') \<and>
   \<not> noApiKey planless \<and>
   fst (executePlan planless
          (property ''plan'' (JObject [(''reasoning'', JString ''Nothing to do.'')]))
          ''Plan a product launch''
          (snd (callOpenAIForPlan planless ''Plan a product launch'' [NewDate])))
     = Inl (Error ''plan is not iterable'') \<and>
   (\<exists>out. fst (runAgentTask planless ''Plan a product launch'' []) = Inr out \<and>
      ao_success out = False \<and> ao_plan out = Some (JArray []) \<and> ao_steps out = [] \<and>
      ao_final out = [] \<and> ao_error out = Some ''plan is not iterable'') \<and>
   \<not> noApiKey summaryFails \<and>
   (\<exists>out. fst (runAgentTask summaryFails ''Plan a product launch'' []) = Inr out \<and>
      ao_success out = False \<and> ao_plan out = Some (JArray []) \<and> ao_steps out = [] \<and>
      ao_error out = Some ''Unknown error'')"
proof -
  let ?task = "''Plan a product launch''"
  have k: "\<not> noApiKey keyed" by (simp add: noApiKey_def keyed_def offline_def)
  have p: "fst (callOpenAIForPlan keyed ?task [NewDate]) = Inl (Error ''Connection error.'')"
    by (simp add: callOpenAIForPlan_def keyed_def offline_def)
  have l: "\<not> noApiKey planless" by (simp add: noApiKey_def planless_def keyed_def offline_def)
  have lp: "fst (callOpenAIForPlan planless ?task [NewDate])
              = Inr (JObject [(''reasoning'', JString ''Nothing to do.'')])"
    by (simp add: callOpenAIForPlan_def planless_def keyed_def offline_def)
  have lx: "fst (executePlan planless
          (property ''plan'' (JObject [(''reasoning'', JString ''Nothing to do.'')])) ?task
          (snd (callOpenAIForPlan planless ?task [NewDate])))
     = Inl (Error ''plan is not iterable'')"
    by (simp add: executePlan_def property_def typeError_def planless_def keyed_def offline_def)
  have s: "\<not> noApiKey summaryFails"
    by (simp add: noApiKey_def summaryFails_def keyed_def offline_def)
  obtain payload where sp: "fst (callOpenAIForPlan summaryFails ?task [NewDate]) = Inr payload"
    and pl: "property ''plan'' payload
               = planJson [knowledgeBaseStep ''s1'', calculatorStep ''s2'']"
    and pn: "payload \<noteq> JNull"
    by (simp add: callOpenAIForPlan_def summaryFails_def keyed_def offline_def property_def
        planJson_def)
  obtain steps w2 where sx: "executePlan summaryFails (property ''plan'' payload) ?task
        (snd (callOpenAIForPlan summaryFails ?task [NewDate])) = (Inr steps, w2)"
    using executePlan_typed [of summaryFails "[knowledgeBaseStep ''s1'', calculatorStep ''s2'']"]
    unfolding pl by blast
  have sf: "fst (callOpenAIForFinal summaryFails ?task (property ''plan'' payload) steps w2) = Inl NonError"
    by (simp add: callOpenAIForFinal_def summaryFails_def keyed_def offline_def)
  have d3: "\<exists>payload.
            fst (callOpenAIForPlan planless ?task [NewDate]) = Inr payload \<and> payload \<noteq> JNull \<and>
            fst (executePlan planless (property ''plan'' payload) ?task
                   (snd (callOpenAIForPlan planless ?task [NewDate])))
              = Inl (Error ''plan is not iterable'')"
    using lp lx by auto
  have d4: "\<exists>payload steps w2.
            fst (callOpenAIForPlan summaryFails ?task [NewDate]) = Inr payload \<and> payload \<noteq> JNull \<and>
            executePlan summaryFails (property ''plan'' payload) ?task
              (snd (callOpenAIForPlan summaryFails ?task [NewDate])) = (Inr steps, w2) \<and>
            fst (callOpenAIForFinal summaryFails ?task (property ''plan'' payload) steps w2) = Inl NonError"
    using sp pn sx sf by blast
  from runAgentTask_credentialed_failure [OF k disjI1, OF p]
       runAgentTask_credentialed_failure [OF l disjI2, OF disjI2, OF disjI1, OF d3]
       runAgentTask_credentialed_failure [OF s disjI2, OF disjI2, OF disjI2, OF d4]
       k p l lx s
  show ?thesis by simp blast
qed

text \<open>
  C10. Without a credential \<open>meta.durationMs\<close> is 0, whatever the clock read at the start
  and at the end of the run (both readings are in \<open>meta\<close>, as \<open>startedAt\<close> and
  \<open>completedAt\<close>). With a credential, on success and on failure alike, \<open>durationMs\<close> is
  the reading behind \<open>completedAt\<close> minus the reading behind \<open>startedAt\<close>. In both cases
  the run returns an outcome, and the reading of \<open>completedAt\<close> is its last effect.
\<close>

theorem durationMs_of_each_path:
  "(noApiKey E \<longrightarrow>
      (\<exists>out w'. runAgentTask E task w = (Inr out, NewDate # w') \<and>
         m_durationMs (ao_meta out) = 0 \<and>
         m_startedAt (ao_meta out) = isoString E (clock E w) \<and>
         m_completedAt (ao_meta out) = isoString E (clock E w'))) \<and>
   (\<not> noApiKey E \<longrightarrow>
      (\<exists>out w'. runAgentTask E task w = (Inr out, NewDate # w') \<and>
         m_startedAt (ao_meta out) = isoString E (clock E w) \<and>
         m_completedAt (ao_meta out) = isoString E (clock E w') \<and>
         m_durationMs (ao_meta out) = clock E w' - clock E w))"
proof (intro conjI impI)
  assume h: "noApiKey E"
  let ?fb = "buildFallbackPlan E task (NewDate # w)"
  obtain records w' where
    x: "executePlan E (planJson (pp_plan (fst ?fb))) task (snd ?fb) = (Inr records, w')"
    using executePlan_typed by blast
  with h show "\<exists>out w'. runAgentTask E task w = (Inr out, NewDate # w') \<and>
         m_durationMs (ao_meta out) = 0 \<and>
         m_startedAt (ao_meta out) = isoString E (clock E w) \<and>
         m_completedAt (ao_meta out) = isoString E (clock E w')"
    by (simp add: runAgentTask_def newDate_def case_prod_beta Let_def)
next
  assume "\<not> noApiKey E"
  then show "\<exists>out w'. runAgentTask E task w = (Inr out, NewDate # w') \<and>
         m_startedAt (ao_meta out) = isoString E (clock E w) \<and>
         m_completedAt (ao_meta out) = isoString E (clock E w') \<and>
         m_durationMs (ao_meta out) = clock E w' - clock E w"
    by (auto simp: runAgentTask_def newDate_def caught_def callOpenAIForPlan_def
        callOpenAIForFinal_def case_prod_beta Let_def split: sum.splits prod.splits)
qed

theorem durationMs_of_each_path_witness:
  "noApiKey offline \<and>
   (\<exists>out. fst (runAgentTask offline ''Plan a product launch'' []) = Inr out \<and>
      m_durationMs (ao_meta out) = 0 \<and> m_startedAt (ao_meta out) = ''0'') \<and>
   \<not> noApiKey keyed \<and>
   (\<exists>out. fst (runAgentTask keyed ''Plan a product launch'' []) = Inr out \<and>
      m_startedAt (ao_meta out) = ''0'' \<and> m_completedAt (ao_meta out) = ''2000'' \<and>
      m_durationMs (ao_meta out) = 2000)"
proof -
  have h: "noApiKey offline" by (simp add: noApiKey_def offline_def)
  have k: "\<not> noApiKey keyed" by (simp add: noApiKey_def keyed_def offline_def)
  have z: "isoString offline (clock offline []) = ''0''" by code_simp
  have c: "snd (runAgentTask keyed ''Plan a product launch'' [])
             = [NewDate, PlanRequested ''Plan a product launch'', NewDate]"
    by (simp add: runAgentTask_def newDate_def noApiKey_def keyed_def offline_def
        callOpenAIForPlan_def caught_def)
  have d: "isoString keyed (clock keyed []) = ''0''" by code_simp
  have e: "isoString keyed (clock keyed [PlanRequested ''Plan a product launch'', NewDate]) = ''2000''"
    by code_simp
  have f: "clock keyed [PlanRequested ''Plan a product launch'', NewDate] - clock keyed [] = 2000"
    by (simp add: keyed_def offline_def)
  note t1 = durationMs_of_each_path [of offline "''Plan a product launch''" "[]",
      THEN conjunct1, rule_format, OF h]
  note t2 = durationMs_of_each_path [of keyed "''Plan a product launch''" "[]",
      THEN conjunct2, rule_format, OF k]
  from t1 z have a: "\<exists>out. fst (runAgentTask offline ''Plan a product launch'' []) = Inr out \<and>
      m_durationMs (ao_meta out) = 0 \<and> m_startedAt (ao_meta out) = ''0''"
    by auto
  from t2 c d e f have g: "\<exists>out. fst (runAgentTask keyed ''Plan a product launch'' []) = Inr out \<and>
      m_startedAt (ao_meta out) = ''0'' \<and> m_completedAt (ao_meta out) = ''2000'' \<and>
      m_durationMs (ao_meta out) = 2000"
    by auto
  from h k a g show ?thesis by blast
qed

section \<open>The calculator tool, proved\<close>

text \<open>
  C4. For every input that is not blank and contains a character outside the whitelist, the
  calculator returns \<open>success = false\<close> with the error \<open>Expression contains unsupported
  characters.\<close> The only effect is the draw of the record's identifier: no text is handed
  to the evaluator, and the result is the same whatever the engine would answer.
\<close>

theorem calculatorTool_rejects_unlisted_characters:
  assumes "trim input \<noteq> []" and "\<exists>c\<in>set input. \<not> whitelisted c"
  shows "te_success (fst (calculatorTool E input w)) = False \<and>
         te_error (fst (calculatorTool E input w)) = Some ''Expression contains unsupported characters.'' \<and>
         snd (calculatorTool E input w) = RandomUUID # w \<and>
         calculatorTool (E\<lparr>engine := g\<rparr>) input w = calculatorTool E input w"
proof -
  from assms(2) have "\<not> isSafeMathExpression input"
    by (auto simp: isSafeMathExpression_def list_all_iff)
  with assms(1) show ?thesis
    by (simp add: calculatorTool_def randomUUID_def)
qed

theorem calculatorTool_rejects_unlisted_characters_witness:
  "trim ''alert(1)'' \<noteq> [] \<and>
   \<not> whitelisted (CHR ''a'') \<and> CHR ''a'' \<in> set ''alert(1)'' \<and>
   te_success (fst (calculatorTool offline ''alert(1)'' [])) = False \<and>
   te_error (fst (calculatorTool offline ''alert(1)'' [])) = Some ''Expression contains unsupported characters.'' \<and>
   snd (calculatorTool offline ''alert(1)'' []) = [RandomUUID]"
proof -
  have t: "trim ''alert(1)'' \<noteq> []" by code_simp
  have a: "\<not> whitelisted (CHR ''a'')" by code_simp
  have m: "CHR ''a'' \<in> set ''alert(1)''" by simp
  from a m have e: "\<exists>c\<in>set ''alert(1)''. \<not> whitelisted c" by blast
  from calculatorTool_rejects_unlisted_characters [OF t e, of offline "[]"] t a m
  show ?thesis by blast
qed

subsection \<open>The caret\<close>

lemma digit_chars:
  "char_of (48::nat) = CHR ''0''" "char_of (49::nat) = CHR ''1''" "char_of (50::nat) = CHR ''2''"
  "char_of (51::nat) = CHR ''3''" "char_of (52::nat) = CHR ''4''" "char_of (53::nat) = CHR ''5''"
  "char_of (54::nat) = CHR ''6''" "char_of (55::nat) = CHR ''7''" "char_of (56::nat) = CHR ''8''"
  "char_of (57::nat) = CHR ''9''"
  by code_simp+

lemma code_digit: "k < 10 \<Longrightarrow> code (char_of (48 + k)) = 48 + (k::nat)"
  by (simp add: code_def)

lemma isDigit_digit: "k < 10 \<Longrightarrow> isDigit (char_of (48 + (k::nat)))"
  by (simp add: isDigit_def code_digit)

lemma digitValue_digit: "k < 10 \<Longrightarrow> digitValue (char_of (48 + (k::nat))) = int k"
  by (simp add: digitValue_def code_digit)

lemma isDigit_not_isSpace: "isDigit c \<Longrightarrow> \<not> isSpace c"
  by (auto simp: isDigit_def isSpace_def)

lemma isDigit_whitelisted: "isDigit c \<Longrightarrow> whitelisted c"
  by (simp add: whitelisted_def)

lemma showNat_digits: "list_all isDigit (showNat n) \<and> showNat n \<noteq> []"
proof (induction n rule: showNat.induct)
  case (1 n)
  show ?case
  proof (cases "n < 10")
    case True
    then show ?thesis by (subst (1 2) showNat.simps) (simp add: isDigit_digit)
  next
    case False
    with "1" show ?thesis by (subst (1 2) showNat.simps) (simp add: isDigit_digit)
  qed
qed

text \<open>The scanner reads the decimal notation of \<open>n\<close> as the literal \<open>n\<close>.\<close>

lemma scan_showNat: "scan None (showNat n @ cs) = scan (Some (int n)) cs"
proof (induction n arbitrary: cs rule: showNat.induct)
  case (1 n)
  show ?case
  proof (cases "n < 10")
    case True
    then show ?thesis
      by (subst showNat.simps) (simp add: isDigit_digit digitValue_digit)
  next
    case False
    then have m: "int (n div 10) \<noteq> 0" by simp
    have d: "n mod 10 < 10" by simp
    have "scan None (showNat n @ cs)
        = scan None (showNat (n div 10) @ (char_of (48 + n mod 10) # cs))"
      using False by (subst showNat.simps) simp
    also have "\<dots> = scan (Some (int (n div 10))) (char_of (48 + n mod 10) # cs)"
      using "1" [OF False] by simp
    also have "\<dots> = scan (Some (10 * int (n div 10) + int (n mod 10))) cs"
      using m by (simp add: isDigit_digit [OF d] digitValue_digit [OF d])
    also have "10 * int (n div 10) + int (n mod 10) = int n"
      by presburger
    finally show ?thesis .
  qed
qed

lemma scan_caret:
  "scan (Some a) (CHR ''^'' # cs) = emit (Some a) CARET (scan None cs)"
  by (simp add: isDigit_def isSpace_def code_def)

lemma scan_minus:
  "\<not> startsWith cs ''-'' \<Longrightarrow> scan None (CHR ''-'' # cs) = emit None MINUS (scan None cs)"
  by (simp add: isDigit_def isSpace_def code_def)

declare scan.simps [simp del]

lemma showNat_no_minus: "\<not> startsWith (showNat n @ cs) ''-''"
proof -
  from showNat_digits [of n] obtain d ds where "showNat n = d # ds" and "isDigit d"
    by (cases "showNat n") auto
  then show ?thesis by (auto simp: isDigit_def code_def)
qed

text \<open>
  The scanner reads the decimal notation of an integer as its magnitude, after a minus
  sign when it is negative.
\<close>

lemma scan_number:
  "scan None (numberToString x @ cs)
     = map_option (\<lambda>ts. (if x < 0 then [MINUS] else []) @ ts) (scan (Some \<bar>x\<bar>) cs)"
proof (cases "x < 0")
  case True
  then have "int (nat (- x)) = \<bar>x\<bar>" by simp
  with True show ?thesis
    using scan_minus [OF showNat_no_minus, of "nat (- x)" cs] scan_showNat [of "nat (- x)" cs]
    by (simp add: numberToString_def emit_def flush_def)
next
  case False
  then have "int (nat x) = \<bar>x\<bar>" by simp
  with False show ?thesis
    using scan_showNat [of "nat x" cs] by (simp add: numberToString_def option.map_ident)
qed

lemma tokens_of_caret:
  "scan None (numberToString x @ CHR ''^'' # numberToString y)
     = Some ((if x < 0 then [MINUS] else []) @ NUM \<bar>x\<bar> # CARET #
             (if y < 0 then [MINUS] else []) @ [NUM \<bar>y\<bar>])"
proof -
  have "scan None (numberToString y) = Some ((if y < 0 then [MINUS] else []) @ [NUM \<bar>y\<bar>])"
    using scan_number [of y "[]"] by (simp add: flush_def scan.simps)
  then show ?thesis
    by (simp add: scan_number scan_caret emit_def flush_def)
qed

lemma bitXor_eq: "bitXor a b = signed_take_bit 31 (a XOR b)"
  by (simp add: bitXor_def word_wi_log_defs sint_sbintrunc')

lemma evaluateFragment_caret:
  assumes "\<bar>x\<bar> \<le> maxSafe" and "\<bar>y\<bar> \<le> maxSafe"
  shows "evaluateFragment (numberToString x @ ''^'' @ numberToString y)
           = Some (signed_take_bit 31 (x XOR y))"
proof -
  have "run True [] [] (LPAREN # ((if x < 0 then [MINUS] else []) @ NUM \<bar>x\<bar> # CARET #
             (if y < 0 then [MINUS] else []) @ [NUM \<bar>y\<bar>]) @ [RPAREN]) = Some (bitXor x y)"
    using assms by (cases "x < 0"; cases "y < 0") (simp_all add: binaryOf_def)
  then show ?thesis
    by (simp add: evaluateFragment_def tokens_of_caret bitXor_eq)
qed

lemma trim_nonempty: "\<not> isSpace c \<Longrightarrow> trim (c # cs) \<noteq> []"
  by (auto simp: trim_def)

lemma numberToString_shape:
  "list_all whitelisted (numberToString x) \<and>
   (\<exists>c cs. numberToString x = c # cs \<and> \<not> isSpace c)"
proof -
  have w: "list_all whitelisted (showNat n)" for n
    using showNat_digits [of n] by (auto simp: list_all_iff isDigit_whitelisted)
  have h: "\<exists>c cs. showNat n = c # cs \<and> \<not> isSpace c" for n
    using showNat_digits [of n] by (cases "showNat n") (auto simp: isDigit_not_isSpace)
  have m: "whitelisted (CHR ''-'')" "\<not> isSpace (CHR ''-'')"
    by (simp_all add: whitelisted_def isSpace_def code_def)
  from w h m show ?thesis by (simp add: numberToString_def)
qed

lemma caret_input_accepted:
  "trim (numberToString x @ ''^'' @ numberToString y) \<noteq> [] \<and>
   isSafeMathExpression (numberToString x @ ''^'' @ numberToString y)"
proof -
  from numberToString_shape [of x] obtain c cs where "numberToString x = c # cs" and "\<not> isSpace c"
    by blast
  then have "trim (numberToString x @ ''^'' @ numberToString y) \<noteq> []"
    by (simp add: trim_nonempty)
  moreover have "whitelisted (CHR ''^'')" by (simp add: whitelisted_def)
  ultimately show ?thesis
    using numberToString_shape [of x] numberToString_shape [of y]
    by (simp add: isSafeMathExpression_def)
qed

text \<open>
  C9. The calculator evaluates the caret as the bitwise exclusive or of ECMAScript, not as
  a power. For all integers \<open>x\<close> and \<open>y\<close> that are safe integers, negative ones
  included, the input made of the decimal notation of \<open>x\<close>, a caret and the decimal
  notation of \<open>y\<close> passes the whitelist and is evaluated, and the tool succeeds with the
  output \<open>Result: \<close> followed by the exclusive or of \<open>x\<close> and \<open>y\<close>, taken as signed
  32-bit integers (\<open>ToInt32\<close>); for operands from 0 to \<open>2^31 - 1\<close> that is the exclusive or
  of the two numbers themselves. So the input \<open>2^3\<close> gives \<open>Result: 1\<close>, not
  \<open>Result: 8\<close>. The description under which the registry publishes the tool lists \<open>^\<close>
  among the operators of mathematical expressions.
\<close>

theorem calculatorTool_caret_is_xor:
  assumes "\<bar>x\<bar> \<le> maxSafe" and "\<bar>y\<bar> \<le> maxSafe"
  shows "fst (calculatorTool E (numberToString x @ ''^'' @ numberToString y) w) =
           \<lparr>te_id = uuid E (Evaluated (functionBody (numberToString x @ ''^'' @ numberToString y)) # w),
            te_tool = ''calculator'',
            te_input = numberToString x @ ''^'' @ numberToString y,
            te_output = ''Result: '' @ numberToString (signed_take_bit 31 (x XOR y)),
            te_success = True, te_error = None\<rparr> \<and>
         (0 \<le> x \<and> x < 2 ^ 31 \<and> 0 \<le> y \<and> y < 2 ^ 31 \<longrightarrow>
            te_output (fst (calculatorTool E (numberToString x @ ''^'' @ numberToString y) w))
              = ''Result: '' @ numberToString (x XOR y)) \<and>
         numberToString 2 @ ''^'' @ numberToString 3 = ''2^3'' \<and>
         te_success (fst (calculatorTool E ''2^3'' w)) = True \<and>
         te_output (fst (calculatorTool E ''2^3'' w)) = ''Result: 1'' \<and>
         te_output (fst (calculatorTool E ''2^3'' w)) \<noteq> ''Result: 8'' \<and>
         map_option t_description (getToolByName ''calculator'')
           = Some ''Solve mathematical expressions including +, -, *, /, %, and ^.''"
proof -
  have general: "fst (calculatorTool E (numberToString a @ ''^'' @ numberToString b) w) =
           \<lparr>te_id = uuid E (Evaluated (functionBody (numberToString a @ ''^'' @ numberToString b)) # w),
            te_tool = ''calculator'',
            te_input = numberToString a @ ''^'' @ numberToString b,
            te_output = ''Result: '' @ numberToString (signed_take_bit 31 (a XOR b)),
            te_success = True, te_error = None\<rparr>"
    if "\<bar>a\<bar> \<le> maxSafe" and "\<bar>b\<bar> \<le> maxSafe" for a b
    using caret_input_accepted [of a b] evaluateFragment_caret [OF that]
    by (simp add: calculatorTool_def callFunction_def randomUUID_def)
  have small: "signed_take_bit 31 (x XOR y) = x XOR y"
    if "0 \<le> x" and "x < 2 ^ 31" and "0 \<le> y" and "y < 2 ^ 31"
  proof -
    from that have "x XOR y < 2 ^ 31" by (intro XOR_upper) simp_all
    moreover have "- (2 ^ 31) \<le> x XOR y"
    proof -
      from that have "0 \<le> x XOR y" by simp
      moreover have "- (2 ^ 31) \<le> (0::int)" by simp
      ultimately show ?thesis by (rule order_trans [rotated])
    qed
    ultimately show ?thesis by (intro signed_take_bit_int_eq_self) simp_all
  qed
  have two: "numberToString 2 @ ''^'' @ numberToString 3 = ''2^3''"
    by (simp add: numberToString_def showNat.simps digit_chars)
  have safe: "\<bar>2\<bar> \<le> maxSafe" "\<bar>3\<bar> \<le> maxSafe" by (simp_all add: maxSafe_def)
  have one: "numberToString (signed_take_bit 31 (2 XOR 3)) = ''1''"
    by (simp add: numberToString_def showNat.simps digit_chars)
  have example: "te_success (fst (calculatorTool E ''2^3'' w)) = True \<and>
         te_output (fst (calculatorTool E ''2^3'' w)) = ''Result: 1''"
    using general [OF safe] unfolding two one by simp
  have description: "map_option t_description (getToolByName ''calculator'')
           = Some ''Solve mathematical expressions including +, -, *, /, %, and ^.''"
    by code_simp
  from general [OF assms] small example two description show ?thesis by simp
qed

theorem calculatorTool_caret_is_xor_witness:
  "\<bar>6\<bar> \<le> maxSafe \<and> \<bar>3\<bar> \<le> maxSafe \<and> (0::int) \<le> 6 \<and> (6::int) < 2 ^ 31 \<and>
   (0::int) \<le> 3 \<and> (3::int) < 2 ^ 31 \<and>
   numberToString 6 @ ''^'' @ numberToString 3 = ''6^3'' \<and>
   te_success (fst (calculatorTool offline ''6^3'' [])) = True \<and>
   te_output (fst (calculatorTool offline ''6^3'' [])) = ''Result: 5'' \<and>
   \<bar>- 5\<bar> \<le> maxSafe \<and>
   numberToString (- 5) @ ''^'' @ numberToString 3 = ''-5^3'' \<and>
   te_output (fst (calculatorTool offline ''-5^3'' [])) = ''Result: -8'' \<and>
   \<bar>4294967298\<bar> \<le> maxSafe \<and>
   numberToString 4294967298 @ ''^'' @ numberToString 3 = ''4294967298^3'' \<and>
   te_output (fst (calculatorTool offline ''4294967298^3'' [])) = ''Result: 1''"
proof -
  have s: "\<bar>6\<bar> \<le> maxSafe" "\<bar>3\<bar> \<le> maxSafe" "\<bar>- 5\<bar> \<le> maxSafe" "\<bar>4294967298\<bar> \<le> maxSafe"
    by (simp_all add: maxSafe_def)
  have b: "(0::int) \<le> 6" "(6::int) < 2 ^ 31" "(0::int) \<le> 3" "(3::int) < 2 ^ 31" by simp_all
  have t: "numberToString 6 @ ''^'' @ numberToString 3 = ''6^3''"
    by (simp add: numberToString_def showNat.simps digit_chars)
  have m: "numberToString (- 5) @ ''^'' @ numberToString 3 = ''-5^3''"
    by (simp add: numberToString_def showNat.simps digit_chars)
  have u: "numberToString 4294967298 @ ''^'' @ numberToString 3 = ''4294967298^3''"
    by (simp add: numberToString_def showNat.simps digit_chars)
  have v: "numberToString (6 XOR 3) = ''5''"
    by (simp add: numberToString_def showNat.simps digit_chars)
  have n: "numberToString (signed_take_bit 31 (- 5 XOR 3)) = ''-8''"
    by (simp add: numberToString_def showNat.simps digit_chars signed_take_bit_eq_take_bit_shift)
  have x: "numberToString (signed_take_bit 31 (4294967298 XOR 3)) = ''1''"
    by (simp add: numberToString_def showNat.simps digit_chars signed_take_bit_eq_take_bit_shift)
  note g = calculatorTool_caret_is_xor [OF s(1) s(2), of offline "[]"]
  note i = calculatorTool_caret_is_xor [OF s(3) s(2), of offline "[]"]
  note h = calculatorTool_caret_is_xor [OF s(4) s(2), of offline "[]"]
  from g [THEN conjunct1] have g1: "te_success (fst (calculatorTool offline ''6^3'' [])) = True"
    unfolding t by simp
  from g [THEN conjunct2, THEN conjunct1] b
  have g2: "te_output (fst (calculatorTool offline ''6^3'' [])) = ''Result: 5''"
    unfolding t v by simp
  from i [THEN conjunct1] have i1: "te_output (fst (calculatorTool offline ''-5^3'' [])) = ''Result: -8''"
    unfolding m n by simp
  from h [THEN conjunct1]
  have h1: "te_output (fst (calculatorTool offline ''4294967298^3'' [])) = ''Result: 1''"
    unfolding u x by simp
  from s b t m u g1 g2 i1 h1 show ?thesis by simp
qed

section \<open>The knowledge-base tool, proved\<close>

lemma set_insertBy: "set (insertBy cmp x ys) = insert x (set ys)"
  by (induction ys) auto

lemma set_sortBy: "set (sortBy cmp xs) = set xs"
  by (induction xs) (simp_all add: sortBy_def set_insertBy)

lemma sorted_insertBy:
  "sorted_wrt (\<lambda>a b. e_score b \<le> e_score a) ys \<Longrightarrow>
   sorted_wrt (\<lambda>a b. e_score b \<le> e_score a)
     (insertBy (\<lambda>a b. int (e_score b) - int (e_score a)) x ys)"
  by (induction ys) (auto simp: set_insertBy)

lemma sorted_sortBy:
  "sorted_wrt (\<lambda>a b. e_score b \<le> e_score a)
     (sortBy (\<lambda>a b. int (e_score b) - int (e_score a)) xs)"
  by (induction xs) (simp_all add: sortBy_def sorted_insertBy)

lemma taken_before_dropped:
  assumes "sorted_wrt P ys" and "a \<in> set (take n ys)" and "b \<in> set (drop n ys)"
  shows "P a b"
proof -
  from assms(1) have "sorted_wrt P (take n ys @ drop n ys)" by simp
  with assms(2,3) show ?thesis unfolding sorted_wrt_append by blast
qed

lemma ranked_length: "length (ranked q) \<le> 2"
  by (simp add: ranked_def)

lemma ranked_entries:
  assumes "e \<in> set (ranked q)"
  shows "e_doc e \<in> set KNOWLEDGE_BASE \<and> e_score e = scoreKnowledgeBase q (e_doc e) \<and> 0 < e_score e"
proof -
  from assms have "e \<in> set (sortBy (\<lambda>a b. int (e_score b) - int (e_score a))
          (filter (\<lambda>entry. e_score entry > 0)
             (map (\<lambda>d. \<lparr>e_doc = d, e_score = scoreKnowledgeBase q d\<rparr>) KNOWLEDGE_BASE)))"
    unfolding ranked_def by (rule in_set_takeD)
  then show ?thesis by (auto simp: set_sortBy)
qed

lemma ranked_top:
  assumes d: "d \<in> set KNOWLEDGE_BASE" and out: "d \<notin> e_doc ` set (ranked q)"
    and e: "e \<in> set (ranked q)"
  shows "scoreKnowledgeBase q d \<le> e_score e"
proof (cases "scoreKnowledgeBase q d = 0")
  case True
  then show ?thesis by simp
next
  case False
  let ?cmp = "\<lambda>a b. int (e_score b) - int (e_score a)"
  let ?pos = "filter (\<lambda>entry. e_score entry > 0)
             (map (\<lambda>d. \<lparr>e_doc = d, e_score = scoreKnowledgeBase q d\<rparr>) KNOWLEDGE_BASE)"
  let ?x = "\<lparr>e_doc = d, e_score = scoreKnowledgeBase q d\<rparr>"
  from d False have "?x \<in> set (sortBy ?cmp ?pos)" by (auto simp: set_sortBy)
  moreover have "set (sortBy ?cmp ?pos)
      = set (take 2 (sortBy ?cmp ?pos)) \<union> set (drop 2 (sortBy ?cmp ?pos))"
    by (metis append_take_drop_id set_append)
  moreover from out have "?x \<notin> set (take 2 (sortBy ?cmp ?pos))"
    by (force simp: ranked_def)
  ultimately have x: "?x \<in> set (drop 2 (sortBy ?cmp ?pos))" by blast
  from e have "e \<in> set (take 2 (sortBy ?cmp ?pos))" by (simp add: ranked_def)
  from taken_before_dropped [OF sorted_sortBy this x] show ?thesis by simp
qed

lemma ranked_empty:
  assumes "\<forall>d\<in>set KNOWLEDGE_BASE. scoreKnowledgeBase q d = 0"
  shows "ranked q = []"
proof -
  from assms have "filter (\<lambda>entry. e_score entry > 0)
             (map (\<lambda>d. \<lparr>e_doc = d, e_score = scoreKnowledgeBase q d\<rparr>) KNOWLEDGE_BASE) = []"
    by (auto simp: filter_empty_conv)
  then show ?thesis by (simp add: ranked_def sortBy_def)
qed

text \<open>
  The comparator \<open>(a, b) => b.score - a.score\<close> orders by descending score, and the stable
  insertion sort under it is the library's stable sort under the key \<open>- score\<close>.
\<close>

lemma insertBy_insort:
  "insertBy (\<lambda>a b. int (e_score b) - int (e_score a)) x ys
     = insort_key (\<lambda>e. - int (e_score e)) x ys"
  by (induction ys) auto

lemma sortBy_sort_key:
  "sortBy (\<lambda>a b. int (e_score b) - int (e_score a)) xs = sort_key (\<lambda>e. - int (e_score e)) xs"
  by (induction xs) (simp_all add: sortBy_def insertBy_insort)

lemma insort_key_map:
  "insort_key f (g x) (map g ys) = map g (insort_key (\<lambda>y. f (g y)) x ys)"
  by (induction ys) auto

lemma sort_key_map: "sort_key f (map g xs) = map g (sort_key (\<lambda>y. f (g y)) xs)"
  by (induction xs) (simp_all add: insort_key_map)

lemma ranked_documents:
  "ranked q = map (\<lambda>d. \<lparr>e_doc = d, e_score = scoreKnowledgeBase q d\<rparr>)
     (take 2 (sort_key (\<lambda>d. - int (scoreKnowledgeBase q d))
        (filter (\<lambda>d. 0 < scoreKnowledgeBase q d) KNOWLEDGE_BASE)))"
  by (simp add: ranked_def sortBy_sort_key filter_map sort_key_map take_map o_def)

lemma ranked_count:
  "length (ranked q) = min 2 (length (filter (\<lambda>d. 0 < scoreKnowledgeBase q d) KNOWLEDGE_BASE))"
  by (simp add: ranked_documents min.commute)

lemma ranked_empty_iff:
  "ranked q = [] \<longleftrightarrow> (\<forall>d\<in>set KNOWLEDGE_BASE. scoreKnowledgeBase q d = 0)"
proof -
  have "ranked q = [] \<longleftrightarrow> length (ranked q) = 0" by simp
  also have "\<dots> \<longleftrightarrow> filter (\<lambda>d. 0 < scoreKnowledgeBase q d) KNOWLEDGE_BASE = []"
    unfolding ranked_count by (auto simp: min_def)
  also have "\<dots> \<longleftrightarrow> (\<forall>d\<in>set KNOWLEDGE_BASE. scoreKnowledgeBase q d = 0)"
    by (simp add: filter_empty_conv)
  finally show ?thesis .
qed

lemma hd_join: "xs \<noteq> [] \<Longrightarrow> hd xs \<noteq> [] \<Longrightarrow> hd (join sep xs) = hd (hd xs)"
  by (induction sep xs rule: join.induct) auto

lemma rendered_not_literal:
  assumes "rs \<noteq> []"
  shows "join newline (map render rs) \<noteq> ''No relevant knowledge snippets found.''"
proof -
  from assms have "hd (join newline (map render rs)) = hd (render (hd rs))"
    by (simp add: hd_join hd_map render_def bullet_def)
  then have "hd (join newline (map render rs)) = CHR 0xE2"
    by (simp add: render_def bullet_def)
  then show ?thesis by auto
qed

text \<open>
  C8. For every input and context the knowledge-base tool returns \<open>success = true\<close> with
  no error. The query is the input, or the task when the input is empty. The output is
  the literal \<open>No relevant knowledge snippets found.\<close> exactly when no document scores
  above zero against the query; otherwise it is the lines \<open>bullet title: content\<close> of the
  first two of the documents with a positive score, in descending order of score,
  documents of equal score in the order of the knowledge base. So the number of
  documents shown is the smaller of two and the number of documents with a positive
  score, each is a document of the knowledge base with a positive score, and every
  document left out scores no higher than any document shown.
\<close>

theorem knowledgeBaseTool_never_fails:
  "te_success (fst (knowledgeBaseTool E input context w)) = True \<and>
   te_error (fst (knowledgeBaseTool E input context w)) = None \<and>
   (te_output (fst (knowledgeBaseTool E input context w)) = ''No relevant knowledge snippets found.''
      \<longleftrightarrow> (\<forall>d\<in>set KNOWLEDGE_BASE. scoreKnowledgeBase (orElse input (tc_task context)) d = 0)) \<and>
   te_output (fst (knowledgeBaseTool E input context w)) =
     (if \<forall>d\<in>set KNOWLEDGE_BASE. scoreKnowledgeBase (orElse input (tc_task context)) d = 0
      then ''No relevant knowledge snippets found.''
      else join newline
             (map (\<lambda>d. bullet @ '' '' @ d_title d @ '': '' @ d_content d)
                (take 2
                   (sort_key (\<lambda>d. - int (scoreKnowledgeBase (orElse input (tc_task context)) d))
                      (filter (\<lambda>d. 0 < scoreKnowledgeBase (orElse input (tc_task context)) d)
                         KNOWLEDGE_BASE))))) \<and>
   te_output (fst (knowledgeBaseTool E input context w)) =
     (if ranked (orElse input (tc_task context)) = []
      then ''No relevant knowledge snippets found.''
      else join newline (map render (ranked (orElse input (tc_task context))))) \<and>
   map e_doc (ranked (orElse input (tc_task context))) =
     take 2
       (sort_key (\<lambda>d. - int (scoreKnowledgeBase (orElse input (tc_task context)) d))
          (filter (\<lambda>d. 0 < scoreKnowledgeBase (orElse input (tc_task context)) d) KNOWLEDGE_BASE)) \<and>
   length (ranked (orElse input (tc_task context))) =
     min 2 (length (filter (\<lambda>d. 0 < scoreKnowledgeBase (orElse input (tc_task context)) d)
                      KNOWLEDGE_BASE)) \<and>
   length (ranked (orElse input (tc_task context))) \<le> 2 \<and>
   (\<forall>e\<in>set (ranked (orElse input (tc_task context))).
      e_doc e \<in> set KNOWLEDGE_BASE \<and>
      e_score e = scoreKnowledgeBase (orElse input (tc_task context)) (e_doc e) \<and>
      0 < e_score e) \<and>
   (\<forall>d\<in>set KNOWLEDGE_BASE. d \<notin> e_doc ` set (ranked (orElse input (tc_task context))) \<longrightarrow>
      (\<forall>e\<in>set (ranked (orElse input (tc_task context))).
         scoreKnowledgeBase (orElse input (tc_task context)) d \<le> e_score e))"
proof -
  let ?q = "orElse input (tc_task context)"
  let ?out = "te_output (fst (knowledgeBaseTool E input context w))"
  let ?top = "take 2 (sort_key (\<lambda>d. - int (scoreKnowledgeBase ?q d))
                (filter (\<lambda>d. 0 < scoreKnowledgeBase ?q d) KNOWLEDGE_BASE))"
  have out: "?out = (if ranked ?q = [] then ''No relevant knowledge snippets found.''
      else join newline (map render (ranked ?q)))"
    by (simp add: knowledgeBaseTool_def randomUUID_def Let_def)
  have ok: "te_success (fst (knowledgeBaseTool E input context w)) = True \<and>
            te_error (fst (knowledgeBaseTool E input context w)) = None"
    by (simp add: knowledgeBaseTool_def randomUUID_def Let_def)
  have literal: "?out = ''No relevant knowledge snippets found.''
      \<longleftrightarrow> (\<forall>d\<in>set KNOWLEDGE_BASE. scoreKnowledgeBase ?q d = 0)"
    unfolding out using rendered_not_literal [of "ranked ?q"] ranked_empty_iff [of ?q]
    by simp
  have docs: "map e_doc (ranked ?q) = ?top"
    by (subst ranked_documents) (simp add: o_def)
  have lines: "map render (ranked ?q)
      = map (\<lambda>d. bullet @ '' '' @ d_title d @ '': '' @ d_content d) ?top"
    by (subst ranked_documents) (simp add: render_def o_def)
  have shown: "?out = (if \<forall>d\<in>set KNOWLEDGE_BASE. scoreKnowledgeBase ?q d = 0
      then ''No relevant knowledge snippets found.''
      else join newline (map (\<lambda>d. bullet @ '' '' @ d_title d @ '': '' @ d_content d) ?top))"
    using out lines ranked_empty_iff [of ?q] by simp
  from ok literal shown out docs ranked_count [of ?q] ranked_length [of ?q]
    ranked_entries [of _ ?q] ranked_top [of _ ?q]
  show ?thesis by blast
qed

theorem knowledgeBaseTool_never_fails_witness:
  "map (scoreKnowledgeBase ''zzyyxx'') KNOWLEDGE_BASE = [0, 0, 0] \<and>
   te_success (fst (knowledgeBaseTool offline ''zzyyxx'' \<lparr>tc_task = ''Plan a product launch''\<rparr> [])) = True \<and>
   te_output (fst (knowledgeBaseTool offline ''zzyyxx'' \<lparr>tc_task = ''Plan a product launch''\<rparr> []))
     = ''No relevant knowledge snippets found.'' \<and>
   map (scoreKnowledgeBase ''agentic ai'') KNOWLEDGE_BASE = [2, 0, 0] \<and>
   ranked ''agentic ai'' = [\<lparr>e_doc = KNOWLEDGE_BASE ! 0, e_score = 2\<rparr>] \<and>
   length (ranked ''agentic ai'') = 1 \<and>
   te_output (fst (knowledgeBaseTool offline ''agentic ai'' \<lparr>tc_task = ''Plan a product launch''\<rparr> []))
     = render \<lparr>e_doc = KNOWLEDGE_BASE ! 0, e_score = 2\<rparr> \<and>
   te_output (fst (knowledgeBaseTool offline ''agentic ai'' \<lparr>tc_task = ''Plan a product launch''\<rparr> []))
     \<noteq> ''No relevant knowledge snippets found.'' \<and>
   KNOWLEDGE_BASE ! 1 \<in> set KNOWLEDGE_BASE \<and>
   KNOWLEDGE_BASE ! 1 \<notin> e_doc ` set (ranked ''agentic ai'') \<and>
   scoreKnowledgeBase ''agentic ai'' (KNOWLEDGE_BASE ! 1) \<le> 2"
proof -
  let ?c = "\<lparr>tc_task = ''Plan a product launch''\<rparr>"
  have z: "map (scoreKnowledgeBase ''zzyyxx'') KNOWLEDGE_BASE = [0, 0, 0]" by code_simp
  have s: "map (scoreKnowledgeBase ''agentic ai'') KNOWLEDGE_BASE = [2, 0, 0]" by code_simp
  have m: "KNOWLEDGE_BASE ! 1 \<in> set KNOWLEDGE_BASE" by (simp add: KNOWLEDGE_BASE_def)
  have q1: "orElse ''zzyyxx'' (tc_task ?c) = ''zzyyxx''" by (simp add: orElse_def)
  have q2: "orElse ''agentic ai'' (tc_task ?c) = ''agentic ai''" by (simp add: orElse_def)
  from z have zero: "\<forall>d\<in>set KNOWLEDGE_BASE. scoreKnowledgeBase ''zzyyxx'' d = 0"
    by (simp add: KNOWLEDGE_BASE_def)
  from s have positive: "filter (\<lambda>d. 0 < scoreKnowledgeBase ''agentic ai'' d) KNOWLEDGE_BASE
      = [KNOWLEDGE_BASE ! 0]"
    by (simp add: KNOWLEDGE_BASE_def)
  from s have some: "\<not> (\<forall>d\<in>set KNOWLEDGE_BASE. scoreKnowledgeBase ''agentic ai'' d = 0)"
    by (simp add: KNOWLEDGE_BASE_def)
  from s have two: "scoreKnowledgeBase ''agentic ai'' (KNOWLEDGE_BASE ! 0) = 2"
    by (simp add: KNOWLEDGE_BASE_def)
  note t1 = knowledgeBaseTool_never_fails [of offline "''zzyyxx''" ?c "[]", unfolded q1]
  note t2 = knowledgeBaseTool_never_fails [of offline "''agentic ai''" ?c "[]", unfolded q2]
  from t1 zero
  have a: "te_success (fst (knowledgeBaseTool offline ''zzyyxx'' ?c [])) = True \<and>
           te_output (fst (knowledgeBaseTool offline ''zzyyxx'' ?c []))
             = ''No relevant knowledge snippets found.''"
    by blast
  from t2 have "map e_doc (ranked ''agentic ai'') = take 2
       (sort_key (\<lambda>d. - int (scoreKnowledgeBase ''agentic ai'' d))
          (filter (\<lambda>d. 0 < scoreKnowledgeBase ''agentic ai'' d) KNOWLEDGE_BASE))"
    by blast
  then have docs: "map e_doc (ranked ''agentic ai'') = [KNOWLEDGE_BASE ! 0]"
    unfolding positive by simp
  then obtain e where e: "ranked ''agentic ai'' = [e]" and d: "e_doc e = KNOWLEDGE_BASE ! 0"
    by (cases "ranked ''agentic ai''") auto
  from t2 have "\<forall>e\<in>set (ranked ''agentic ai'').
      e_score e = scoreKnowledgeBase ''agentic ai'' (e_doc e)"
    by blast
  with e d two have "e_score e = 2" by simp
  with e d have r: "ranked ''agentic ai'' = [\<lparr>e_doc = KNOWLEDGE_BASE ! 0, e_score = 2\<rparr>]"
    by simp
  from t2 have "te_output (fst (knowledgeBaseTool offline ''agentic ai'' ?c []))
      = (if ranked ''agentic ai'' = [] then ''No relevant knowledge snippets found.''
         else join newline (map render (ranked ''agentic ai'')))"
    by blast
  then have b: "te_output (fst (knowledgeBaseTool offline ''agentic ai'' ?c []))
     = render \<lparr>e_doc = KNOWLEDGE_BASE ! 0, e_score = 2\<rparr>"
    by (simp add: r)
  from t2 some have c: "te_output (fst (knowledgeBaseTool offline ''agentic ai'' ?c []))
     \<noteq> ''No relevant knowledge snippets found.''"
    by blast
  have n: "KNOWLEDGE_BASE ! 1 \<notin> e_doc ` set (ranked ''agentic ai'')"
    by (simp add: r) (simp add: KNOWLEDGE_BASE_def)
  from t2 m n have "\<forall>e\<in>set (ranked ''agentic ai'').
      scoreKnowledgeBase ''agentic ai'' (KNOWLEDGE_BASE ! 1) \<le> e_score e"
    by blast
  then have f: "scoreKnowledgeBase ''agentic ai'' (KNOWLEDGE_BASE ! 1) \<le> 2"
    by (simp add: r)
  from r have l: "length (ranked ''agentic ai'') = 1" by simp
  from z a s r l b c m n f show ?thesis by blast
qed

section \<open>The web search tool, proved\<close>














end
